theory Spec2Isabelle
  imports Complex_Main
begin

section \<open>TNT: adaptive parameter derivation and staged orchestration\<close>

text \<open>
  The Go sources compute with \<^verbatim>\<open>float64\<close>. Throughout this development a
  \<^verbatim>\<open>float64\<close> is idealised as a \<^typ>\<open>real\<close>: rounding, overflow, underflow and
  NaN are outside the model, and \<^verbatim>\<open>math.Pow(10, x)\<close> is \<^term>\<open>10 powr x\<close>.
  The numeric arguments handed to \<^verbatim>\<open>fmt.Sprintf\<close> are the model's outputs; the decimal
  rendering of those arguments is not modelled.
\<close>

subsection \<open>Dynamics score modifiers (go/dynscore.go, go-refactor/internal/audio/compression.go)\<close>

record CompressionModifiers =
  AttackMultiplier :: real
  ReleaseMultiplier :: real
  RatioMultiplier :: real

text \<open>\<^verbatim>\<open>getCompressionModifiers\<close> and its refactored twin \<^verbatim>\<open>GetCompressionModifiers\<close>
  have the same body; the record starts at \<open>{1, 1, 1}\<close> and one branch of the chain
  overwrites it.\<close>

definition getCompressionModifiers :: "real \<Rightarrow> CompressionModifiers" where
  "getCompressionModifiers ds =
     (let mods = \<lparr>AttackMultiplier = 1, ReleaseMultiplier = 1, RatioMultiplier = 1\<rparr> in
      if ds < 9 then
        mods\<lparr>AttackMultiplier := 4, ReleaseMultiplier := 4, RatioMultiplier := 0.15\<rparr>
      else if ds < 15 then
        mods\<lparr>AttackMultiplier := 2, ReleaseMultiplier := 2, RatioMultiplier := 2.1\<rparr>
      else if ds \<le> 21 then
        mods
      else
        (let excess = min (ds - 21) 79;
             scaleFactor = 2 + (2 * excess / 79)
         in mods\<lparr>AttackMultiplier := 1 / scaleFactor,
                 ReleaseMultiplier := 1 / scaleFactor,
                 RatioMultiplier := 4 + (4 * excess / 79)\<rparr>))"

definition attackOf :: "real \<Rightarrow> real" where
  "attackOf ds = AttackMultiplier (getCompressionModifiers ds)"

definition releaseOf :: "real \<Rightarrow> real" where
  "releaseOf ds = ReleaseMultiplier (getCompressionModifiers ds)"

definition ratioOf :: "real \<Rightarrow> real" where
  "ratioOf ds = RatioMultiplier (getCompressionModifiers ds)"

subsection \<open>Dynamic normalization parameters (go/dynscore.go, internal/audio)\<close>

record DynamicsAnalysis =
  PeakLevel :: real
  RMSPeak :: real
  RMSTrough :: real
  CrestFactor :: real
  DynamicRange :: real
  RMSLevel :: real
  NoiseFloor :: real

record DynaudnormParams =
  TargetRMS :: real
  Threshold :: real
  RMSPeakDB :: real
  NoiseFloorDB :: real

text \<open>A nil \<^verbatim>\<open>*DynamicsAnalysis\<close> is \<^term>\<open>None\<close>. The four clamps are separate
  \<^verbatim>\<open>if\<close> statements executed in sequence.\<close>

definition CalculateDynaudnormParams :: "DynamicsAnalysis option \<Rightarrow> DynaudnormParams option" where
  "CalculateDynaudnormParams analysis =
     (case analysis of
        None \<Rightarrow> None
      | Some a \<Rightarrow>
          (let params = \<lparr>TargetRMS = 0, Threshold = 0,
                         RMSPeakDB = RMSPeak a, NoiseFloorDB = NoiseFloor a\<rparr>;
               targetDB = RMSPeakDB params - 6;
               params = params\<lparr>TargetRMS := 10 powr (targetDB / 20)\<rparr>;
               thresholdDB = NoiseFloorDB params + 12;
               params = params\<lparr>Threshold := 10 powr (thresholdDB / 20)\<rparr>;
               params = (if TargetRMS params < 0 then params\<lparr>TargetRMS := 0\<rparr> else params);
               params = (if TargetRMS params > 1 then params\<lparr>TargetRMS := 1\<rparr> else params);
               params = (if Threshold params < 0 then params\<lparr>Threshold := 0\<rparr> else params);
               params = (if Threshold params > 1 then params\<lparr>Threshold := 1\<rparr> else params)
           in Some params))"

text \<open>The monolithic \<^verbatim>\<open>analyzeDynaudnormParams\<close> performs the same computation (it
  only adds two log lines).\<close>

definition analyzeDynaudnormParams :: "DynamicsAnalysis option \<Rightarrow> DynaudnormParams option" where
  "analyzeDynaudnormParams analysis =
     (case analysis of
        None \<Rightarrow> None
      | Some a \<Rightarrow>
          (let params = \<lparr>TargetRMS = 0, Threshold = 0,
                         RMSPeakDB = RMSPeak a, NoiseFloorDB = NoiseFloor a\<rparr>;
               targetDB = RMSPeakDB params - 6;
               params = params\<lparr>TargetRMS := 10 powr (targetDB / 20)\<rparr>;
               thresholdDB = NoiseFloorDB params + 12;
               params = params\<lparr>Threshold := 10 powr (thresholdDB / 20)\<rparr>;
               params = (if TargetRMS params < 0 then params\<lparr>TargetRMS := 0\<rparr> else params);
               params = (if TargetRMS params > 1 then params\<lparr>TargetRMS := 1\<rparr> else params);
               params = (if Threshold params < 0 then params\<lparr>Threshold := 0\<rparr> else params);
               params = (if Threshold params > 1 then params\<lparr>Threshold := 1\<rparr> else params)
           in Some params))"

text \<open>The clamp of the specification, written independently of the code's \<^verbatim>\<open>if\<close> chain.\<close>

definition clamp01 :: "real \<Rightarrow> real" where
  "clamp01 x = max 0 (min 1 x)"


subsection \<open>EQ curve engine (the frequency-analysis file with \<^verbatim>\<open>clampExtremeEQ\<close>)\<close>

text \<open>
  The repository holds three versions of the frequency-analysis file. The embedding
  follows the latest one, the second document of go-refactor/ui.go, whose
  \<^verbatim>\<open>buildEqFilter\<close> passes the gains through \<^verbatim>\<open>clampExtremeEQ\<close> and brackets the
  chain with the preset's high-pass and low-pass filters. The two earlier versions
  (go/freq_anal.go and an unnamed copy) have neither step.

  The level fields of the band record carry the prefix \<open>band_\<close> because
  \<^verbatim>\<open>DynamicsAnalysis\<close> already owns the field names \<^verbatim>\<open>RMSLevel\<close>, \<^verbatim>\<open>PeakLevel\<close> and
  \<^verbatim>\<open>CrestFactor\<close>.
\<close>

record FrequencyBand =
  Frequency :: string
  FilterType :: string
  band_RMSLevel :: real
  band_PeakLevel :: real
  band_CrestFactor :: real

text \<open>\<^verbatim>\<open>analyzeFrequencyResponseBands\<close> measures ten fixed bands. The engine's answer
  for a band is \<^term>\<open>Some (rms, peak, crest)\<close>, or \<^term>\<open>None\<close> when the invocation
  failed; the loop then \<^verbatim>\<open>continue\<close>s and the band keeps its zero values.\<close>

definition eqBandLabels :: "(string \<times> string) list" where
  "eqBandLabels =
     [(''50Hz'', ''lowpass''), (''100Hz'', ''bandpass''), (''200Hz'', ''bandpass''),
      (''400Hz'', ''bandpass''), (''800Hz'', ''bandpass''), (''1.6kHz'', ''bandpass''),
      (''3.2kHz'', ''bandpass''), (''6.4kHz'', ''bandpass''), (''12.8kHz'', ''bandpass''),
      (''12.8kHz+'', ''highpass'')]"

definition analyzeFrequencyResponseBands ::
    "(string \<Rightarrow> (real \<times> real \<times> real) option) \<Rightarrow> FrequencyBand list" where
  "analyzeFrequencyResponseBands stats =
     map (\<lambda>(freq, ftype).
            (case stats freq of
               None \<Rightarrow> \<lparr>Frequency = freq, FilterType = ftype, band_RMSLevel = 0,
                         band_PeakLevel = 0, band_CrestFactor = 0\<rparr>
             | Some (rms, peak, crest) \<Rightarrow>
                       \<lparr>Frequency = freq, FilterType = ftype, band_RMSLevel = rms,
                         band_PeakLevel = peak, band_CrestFactor = crest\<rparr>))
         eqBandLabels"

text \<open>Ten bands with the given RMS levels, in band order (peak and crest left at 0).\<close>

definition bandsWithRMS :: "real list \<Rightarrow> FrequencyBand list" where
  "bandsWithRMS levels =
     map (\<lambda>((freq, ftype), rms).
            \<lparr>Frequency = freq, FilterType = ftype, band_RMSLevel = rms,
             band_PeakLevel = 0, band_CrestFactor = 0\<rparr>)
         (zip eqBandLabels levels)"

definition getBandpassParams :: "string \<Rightarrow> int \<times> real" where
  "getBandpassParams freqStr =
     (let centerFreq =
            (if freqStr = ''100Hz'' then 100
             else if freqStr = ''200Hz'' then 200
             else if freqStr = ''400Hz'' then 400
             else if freqStr = ''800Hz'' then 800
             else if freqStr = ''1.6kHz'' then 1600
             else if freqStr = ''3.2kHz'' then 3200
             else if freqStr = ''6.4kHz'' then 6400
             else if freqStr = ''12.8kHz'' then 12800
             else 0);
          bandwidth = real_of_int centerFreq
      in (centerFreq, bandwidth))"

definition getOctavesFrom1k :: "string \<Rightarrow> real" where
  "getOctavesFrom1k freqStr =
     (if freqStr = ''50Hz'' then -4.32
      else if freqStr = ''100Hz'' then -3.32
      else if freqStr = ''200Hz'' then -2.32
      else if freqStr = ''400Hz'' then -1.32
      else if freqStr = ''800Hz'' then -0.32
      else if freqStr = ''1.6kHz'' then 0.68
      else if freqStr = ''3.2kHz'' then 1.68
      else if freqStr = ''6.4kHz'' then 2.68
      else if freqStr = ''12.8kHz'' then 3.68
      else if freqStr = ''12.8kHz+'' then 5
      else 0)"

definition overallRMS :: "FrequencyBand list \<Rightarrow> real" where
  "overallRMS bands = sum_list (map band_RMSLevel bands) / real (length bands)"

text \<open>Body of the \<^verbatim>\<open>"Flat"\<close> loop: the reference is the overall RMS itself, with no
  per-octave term.\<close>

definition flatTarget :: "real \<Rightarrow> FrequencyBand \<Rightarrow> real" where
  "flatTarget overall band =
     (let pinkNoiseRef = overall in
      if band_RMSLevel band > pinkNoiseRef then
        (let excess = band_RMSLevel band - pinkNoiseRef;
             attenuation = excess / 2;
             attenuation = (if attenuation > 10 then 10 else attenuation)
         in band_RMSLevel band - attenuation)
      else band_RMSLevel band)"

definition speechAdjustment :: "string \<Rightarrow> real" where
  "speechAdjustment freq =
     (if freq = ''50Hz'' then -9
      else if freq = ''100Hz'' then -3.5
      else if freq = ''200Hz'' then -2.5
      else if freq = ''400Hz'' then -3
      else if freq = ''800Hz'' then 0.5
      else if freq = ''1.6kHz'' then 3
      else if freq = ''3.2kHz'' then 1
      else if freq = ''6.4kHz'' then 0
      else if freq = ''12.8kHz'' then -2
      else if freq = ''12.8kHz+'' then -2
      else 0)"

definition broadcastAdjustment :: "string \<Rightarrow> real" where
  "broadcastAdjustment freq =
     (if freq = ''50Hz'' then -2
      else if freq = ''100Hz'' then -1
      else if freq = ''200Hz'' then -2.5
      else if freq = ''400Hz'' then -4.5
      else if freq = ''800Hz'' then 1
      else if freq = ''1.6kHz'' then 2.5
      else if freq = ''3.2kHz'' then 3.5
      else if freq = ''6.4kHz'' then 2
      else if freq = ''12.8kHz'' then -0.5
      else if freq = ''12.8kHz+'' then -2.5
      else 0)"

text \<open>Body shared by the \<^verbatim>\<open>"Speech"\<close> and \<^verbatim>\<open>"Broadcast"\<close> loops, which differ in the
  adjustment table only; here the reference falls by 3 dB per octave above 1 kHz.\<close>

definition adjustedTarget :: "real \<Rightarrow> real \<Rightarrow> FrequencyBand \<Rightarrow> real" where
  "adjustedTarget adjustment overall band =
     (let octavesFrom1k = getOctavesFrom1k (Frequency band);
          pinkNoiseRef = overall - (octavesFrom1k * 3);
          targetLevel = pinkNoiseRef + adjustment;
          deviation = band_RMSLevel band - targetLevel;
          correction = deviation / 2;
          correction = (if correction > 10 then 10
                        else if correction < -10 then -10 else correction)
      in if correction > -0.5 \<and> correction < 0.5 then band_RMSLevel band
         else band_RMSLevel band - correction)"

definition calculateTargetCurve :: "FrequencyBand list \<Rightarrow> string \<Rightarrow> real list" where
  "calculateTargetCurve bands eqTarget =
     (let overall = overallRMS bands in
      if eqTarget = ''Flat'' then map (flatTarget overall) bands
      else if eqTarget = ''Speech'' then
        map (\<lambda>band. adjustedTarget (speechAdjustment (Frequency band)) overall band) bands
      else if eqTarget = ''Broadcast'' then
        map (\<lambda>band. adjustedTarget (broadcastAdjustment (Frequency band)) overall band) bands
      else map band_RMSLevel bands)"

text \<open>First loop of \<^verbatim>\<open>buildEqFilter\<close>: the gain of a band, limited to 10 dB either
  way.\<close>

definition limitedGain :: "FrequencyBand \<Rightarrow> real \<Rightarrow> real" where
  "limitedGain band targetLevel =
     (let gain = targetLevel - band_RMSLevel band
      in if gain > 10 then 10 else if gain < -10 then -10 else gain)"

definition collectGains :: "FrequencyBand list \<Rightarrow> string \<Rightarrow> real list" where
  "collectGains bands eqTarget = map2 limitedGain bands (calculateTargetCurve bands eqTarget)"

text \<open>\<^verbatim>\<open>clampExtremeEQ\<close>. The average runs over the indices \<open>1 .. len - 2\<close>. The block
  that derives the limits of a shelf is written twice in the source, once for the low
  shelf (against the high shelf and the first neighbour) and once for the high shelf
  (against the low shelf and the last neighbour); \<open>shelfLimits\<close> is that block, returning
  the final range \<open>(min, max)\<close>.\<close>

definition avgNonExtremes :: "real list \<Rightarrow> real" where
  "avgNonExtremes gains =
     sum_list (take (length gains - 2) (drop 1 gains)) / real (length gains - 2)"

definition shelfLimits :: "real \<Rightarrow> real \<Rightarrow> real \<Rightarrow> real \<times> real" where
  "shelfLimits other neighbor avg =
     (let maxFromOther = other + 4;
          minFromOther = other - 4;
          maxFromNeighbor = neighbor + 4;
          minFromNeighbor = neighbor - 4;
          (maxFromAvg, minFromAvg) = (if avg \<ge> 0 then (avg, -999) else (999, avg));
          maxShelf = min (min maxFromOther maxFromNeighbor) maxFromAvg;
          minShelf = max (max minFromOther minFromNeighbor) minFromAvg
      in (minShelf, maxShelf))"

text \<open>The upper limit is tested first; the lower one only when the value does not exceed
  the upper one.\<close>

definition clampShelf :: "real \<Rightarrow> real \<times> real \<Rightarrow> real" where
  "clampShelf shelf = (\<lambda>(minShelf, maxShelf).
     if shelf > maxShelf then maxShelf
     else if shelf < minShelf then minShelf
     else shelf)"

definition lowShelfLimits :: "real list \<Rightarrow> real \<times> real" where
  "lowShelfLimits gains =
     shelfLimits (gains ! (length gains - 1)) (gains ! 1) (avgNonExtremes gains)"

definition clampedLowShelf :: "real list \<Rightarrow> real" where
  "clampedLowShelf gains = clampShelf (gains ! 0) (lowShelfLimits gains)"

text \<open>The high shelf is limited against the already clamped low value.\<close>

definition highShelfLimits :: "real list \<Rightarrow> real \<times> real" where
  "highShelfLimits gains =
     shelfLimits (clampedLowShelf gains) (gains ! (length gains - 2)) (avgNonExtremes gains)"

definition clampedHighShelf :: "real list \<Rightarrow> real" where
  "clampedHighShelf gains = clampShelf (gains ! (length gains - 1)) (highShelfLimits gains)"

definition clampExtremeEQ :: "real list \<Rightarrow> real list" where
  "clampExtremeEQ gains =
     (if length gains < 3 then gains
      else (let clamped = gains;
                clamped = clamped[0 := clampedLowShelf gains];
                clamped = clamped[length clamped - 1 := clampedHighShelf gains]
            in clamped))"

text \<open>One element of the filter chain, with the numbers handed to \<^verbatim>\<open>Sprintf\<close>: the
  preset's high-pass and low-pass (frequency, poles), a shelf with its gain (the low shelf
  is preceded by a fixed \<^verbatim>\<open>highpass=f=25\<close>, the high shelf by a fixed
  \<^verbatim>\<open>lowpass=f=17500\<close>), and a band filter (centre frequency, width, gain).
  \<^verbatim>\<open>buildEqFilter\<close> joins the parts with commas, so its result is the empty string exactly
  when the list of parts is empty.\<close>

datatype EqFilterPart =
    Highpass nat nat
  | Lowpass nat nat
  | Lowshelf real
  | Highshelf real
  | Anequalizer int real real

definition presetHighpass :: "string \<Rightarrow> EqFilterPart list" where
  "presetHighpass eqTarget =
     (if eqTarget = ''Flat'' then [Highpass 25 2]
      else if eqTarget = ''Speech'' then [Highpass 80 2]
      else if eqTarget = ''Broadcast'' then [Highpass 70 2]
      else [])"

definition presetLowpass :: "string \<Rightarrow> EqFilterPart list" where
  "presetLowpass eqTarget =
     (if eqTarget = ''Flat'' then []
      else if eqTarget = ''Speech'' then [Lowpass 13000 1]
      else if eqTarget = ''Broadcast'' then [Lowpass 14000 2]
      else [])"

text \<open>Body of the second loop of \<^verbatim>\<open>buildEqFilter\<close>: the parts one band appends for its
  clamped gain.\<close>

definition eqBandParts :: "FrequencyBand \<Rightarrow> real \<Rightarrow> EqFilterPart list" where
  "eqBandParts band gain =
     (if gain > -0.5 \<and> gain < 0.5 then []
      else if FilterType band = ''lowpass'' then [Lowshelf gain]
      else if FilterType band = ''highpass'' then [Highshelf gain]
      else if FilterType band = ''bandpass'' then
        (let (centerFreq, bandwidth) = getBandpassParams (Frequency band)
         in [Anequalizer centerFreq bandwidth gain])
      else [])"

definition buildEqFilter :: "FrequencyBand list \<Rightarrow> string \<Rightarrow> EqFilterPart list" where
  "buildEqFilter bands eqTarget =
     (if length bands = 0 \<or> eqTarget = ''Off'' then []
      else (let gains = collectGains bands eqTarget;
                gains = clampExtremeEQ gains;
                filterParts = concat (map2 eqBandParts bands gains)
            in presetHighpass eqTarget @ filterParts @ presetLowpass eqTarget))"

text \<open>The extreme-band rules of the specification for a gain vector of ten bands: the
  shelves within 4 dB of each other and of their inner neighbours, and capped above by the
  average of the eight inner gains when that average is not negative, floored below by it
  otherwise.\<close>

definition extremeRulesHold :: "real list \<Rightarrow> bool" where
  "extremeRulesHold g =
     (\<bar>g ! 0 - g ! 9\<bar> \<le> 4 \<and> \<bar>g ! 0 - g ! 1\<bar> \<le> 4 \<and> \<bar>g ! 9 - g ! 8\<bar> \<le> 4 \<and>
      (if avgNonExtremes g \<ge> 0 then g ! 0 \<le> avgNonExtremes g \<and> g ! 9 \<le> avgNonExtremes g
       else avgNonExtremes g \<le> g ! 0 \<and> avgNonExtremes g \<le> g ! 9))"

subsection \<open>Compressor helpers (go-refactor/internal/audio/compression.go)\<close>

definition DbToLinear :: "real \<Rightarrow> real" where
  "DbToLinear db = 10 powr (db / 20)"

definition GetBaseRatioFromCrest :: "real \<Rightarrow> real" where
  "GetBaseRatioFromCrest crest =
     (if crest \<le> 3 then 1.4
      else if crest \<le> 5 then 2
      else if crest \<le> 8 then 4
      else if crest \<ge> 16 then 8
      else 4 + (4 * (crest - 8) / 8))"

definition GetKneeFromRatio :: "real \<Rightarrow> real" where
  "GetKneeFromRatio ratio =
     (if ratio < 1 then 1
      else if ratio < 2 then 2
      else if ratio < 4 then 3
      else if ratio < 8 then 4
      else if ratio < 12 then 6
      else if ratio \<ge> 12 then 7.5
      else 4)"

definition ClampCompressorParams ::
    "real \<Rightarrow> real \<Rightarrow> real \<Rightarrow> real \<Rightarrow> real \<Rightarrow> real \<times> real \<times> real \<times> real \<times> real" where
  "ClampCompressorParams thresholdLin ratio attackMs releaseMs makeupLin =
     (let thresholdLin = (if thresholdLin < 0.00097563 then 0.00097563 else thresholdLin);
          thresholdLin = (if thresholdLin > 1 then 1 else thresholdLin);
          ratio = (if ratio < 1 then 1 else ratio);
          ratio = (if ratio > 20 then 20 else ratio);
          attackMs = (if attackMs < 0.01 then 0.01 else attackMs);
          attackMs = (if attackMs > 2000 then 2000 else attackMs);
          releaseMs = (if releaseMs < 0.01 then 0.01 else releaseMs);
          releaseMs = (if releaseMs > 9000 then 9000 else releaseMs);
          makeupLin = (if makeupLin < 1 then 1 else makeupLin);
          makeupLin = (if makeupLin > 64 then 64 else makeupLin)
      in (thresholdLin, ratio, attackMs, releaseMs, makeupLin))"

text \<open>\<^verbatim>\<open>CalculateMakeupGain\<close> of the refactored package. The division by \<open>ratio\<close> is
  reached only for \<open>ratio > 1\<close>.\<close>

definition CalculateMakeupGain :: "DynamicsAnalysis option \<Rightarrow> real \<Rightarrow> real \<Rightarrow> real" where
  "CalculateMakeupGain analysis thresholdDb ratio =
     (case analysis of
        None \<Rightarrow> 1
      | Some a \<Rightarrow>
          if ratio \<le> 1 then 1
          else (let avgLevel = RMSLevel a in
                if avgLevel > thresholdDb then
                  (let excessDb = avgLevel - thresholdDb;
                       reductionDb = excessDb - (excessDb / ratio);
                       makeupDb = reductionDb * 0.8
                   in 10 powr (makeupDb / 20))
                else 1))"

text \<open>\<^verbatim>\<open>calculateMakeupGain\<close> of the monolithic main. Its divisions by
  \<open>rmsPeak - rmsLevel\<close> and by \<open>ratio\<close> are exact for \<open>ratio \<noteq> 0\<close>; a ratio of 0 arises
  only for a preset string outside Light, Moderate and Broadcast, where Go's arithmetic
  leaves the real numbers.\<close>

definition calculateMakeupGain :: "DynamicsAnalysis \<Rightarrow> real \<Rightarrow> real \<Rightarrow> real" where
  "calculateMakeupGain analysis threshold ratio =
     (let rmsPeak = RMSPeak analysis; rmsLevel = RMSLevel analysis in
      if threshold \<ge> rmsPeak then 1
      else
        (let percentageAboveThreshold =
               (if threshold \<le> rmsLevel then 0.7
                else (let thresholdPosition = (rmsPeak - threshold) / (rmsPeak - rmsLevel)
                      in 0.3 * thresholdPosition));
             avgExcursion = (rmsPeak - threshold) / 2;
             gainReductionPerSample = avgExcursion * ((ratio - 1) / ratio);
             effectiveGainReduction = gainReductionPerSample * percentageAboveThreshold;
             makeupGainDB = effectiveGainReduction * 0.85;
             makeupGainLinear = 10 powr (makeupGainDB / 20)
         in if makeupGainLinear < 1 then 1
            else if makeupGainLinear > 64 then 64
            else makeupGainLinear))"

subsection \<open>Emitted compressor specs\<close>

text \<open>The numbers a compressor filter string is formatted from: the \<^verbatim>\<open>acompressor\<close>
  arguments, the optional \<^verbatim>\<open>alimiter\<close> (limit, attack, release) and the optional trailing
  \<^verbatim>\<open>volume\<close>. \<open>cs_loggedLimiterDb\<close> is the limiter ceiling the monolithic band builder
  writes to its log line.\<close>

record CompressorSpec =
  cs_threshold :: real
  cs_ratio :: real
  cs_attack :: real
  cs_release :: real
  cs_knee :: "real option"
  cs_makeup :: real
  cs_limiter :: "(real \<times> real \<times> real) option"
  cs_volume :: "real option"
  cs_loggedLimiterDb :: "real option"

record FrequencyBandAnalysis =
  BandName :: string
  fba_PeakLevel :: real
  fba_RMSLevel :: real
  fba_CrestFactor :: real
  fba_DynamicRange :: real

record DynamicsScoreAnalysis =
  ds_RMSPeak :: real
  ds_RMSLevel :: real
  ds_CrestFactor :: real
  DynamicsScore :: real

text \<open>\<^verbatim>\<open>buildBandAcompressor\<close> of the monolithic main. A nil band is \<^term>\<open>None\<close>.
  The makeup gain is carried as an option while it may be infinite: a requested ratio of
  exactly 0 makes \<open>expectedGRDb\<close> minus infinity and the linear makeup plus infinity
  (\<^term>\<open>None\<close>), which the later clamp turns into 64.\<close>

definition buildBandAcompressor ::
    "FrequencyBandAnalysis option \<Rightarrow> real \<Rightarrow> real \<Rightarrow> real \<Rightarrow> real \<Rightarrow> CompressionModifiers
       \<Rightarrow> CompressorSpec" where
  "buildBandAcompressor band attackMs releaseMs ratio fallbackThresholdDb mods =
     (case band of
        None \<Rightarrow>
          (let thresholdLin = 10 powr (fallbackThresholdDb / 20);
               makeup = 10 powr (3 / 20);
               limiterLin = 10 powr (-1 / 20);
               limiterLin = (if limiterLin > 1 then 1 else limiterLin)
           in \<lparr>cs_threshold = thresholdLin, cs_ratio = ratio, cs_attack = attackMs,
               cs_release = releaseMs, cs_knee = None, cs_makeup = 1,
               cs_limiter = Some (limiterLin, 5, 50), cs_volume = Some makeup,
               cs_loggedLimiterDb = None\<rparr>)
      | Some band \<Rightarrow>
          (let adaptiveThresholdDb =
                 (if RatioMultiplier mods < 0.3 then fba_PeakLevel band - 1
                  else (let thresholdOffset = (if RatioMultiplier mods > 3 then 3 else 6)
                        in fba_RMSLevel band + thresholdOffset));
               thresholdLin = 10 powr (adaptiveThresholdDb / 20);
               makeupLin =
                 (if RatioMultiplier mods < 0.3 then Some (10 powr (0 / 20))
                  else if ratio = 0 then None
                  else (let expectedGRDb = (fba_RMSLevel band - adaptiveThresholdDb) / ratio;
                            makeupGainDb = - expectedGRDb * 0.8;
                            makeupGainDb = (if makeupGainDb < 0 then 0 else makeupGainDb)
                        in Some (10 powr (makeupGainDb / 20))));
               limiterCeilingDb =
                 (if RatioMultiplier mods < 0.3 then
                    (let c = fba_PeakLevel band - 0.1 in if c > 0 then 0 else c)
                  else fba_PeakLevel band - 0.8);
               limiterCeilingDb = (if limiterCeilingDb < -24 then -24 else limiterCeilingDb);
               limiterLin = 10 powr (limiterCeilingDb / 20);
               limiterLin = (if limiterLin > 1 then 1 else limiterLin);
               attackMs = attackMs * AttackMultiplier mods;
               releaseMs = releaseMs * ReleaseMultiplier mods;
               ratio = ratio * RatioMultiplier mods;
               limiterAttack = 25 * AttackMultiplier mods;
               limiterRelease = 150 * ReleaseMultiplier mods;
               knee = 4;
               (ratio, knee) =
                 (if ratio < 1 then (1, 1)
                  else if ratio < 2 then (ratio, 2)
                  else if ratio < 4 then (ratio, 3)
                  else if ratio < 8 then (ratio, 4)
                  else if ratio < 12 then (ratio, 6)
                  else if ratio > 12 then (ratio, 7.5)
                  else (ratio, knee));
               (ratio, knee) = (if ratio > 20 then (20, 8) else (ratio, knee));
               thresholdLin = (if thresholdLin < 0.00099 then 0.00099 else thresholdLin);
               thresholdLin = (if thresholdLin > 1 then 1 else thresholdLin);
               attackMs = (if attackMs < 0.01 then 0.01 else attackMs);
               attackMs = (if attackMs > 2000 then 2000 else attackMs);
               releaseMs = (if releaseMs < 0.01 then 0.01 else releaseMs);
               releaseMs = (if releaseMs > 9000 then 9000 else releaseMs);
               makeupLin = (case makeupLin of
                              None \<Rightarrow> 64
                            | Some m \<Rightarrow> (let m = (if m < 1 then 1 else m)
                                        in if m > 64 then 64 else m));
               limiterAttack = (if limiterAttack > 80 then 80 else limiterAttack);
               limiterRelease = (if limiterRelease > 8000 then 8000 else limiterRelease);
               (limiterCeilingDb, limiterAttack, limiterRelease) =
                 (if RatioMultiplier mods < 0.3 then (0, 80, 2000)
                  else (limiterCeilingDb, limiterAttack, limiterRelease))
           in \<lparr>cs_threshold = thresholdLin, cs_ratio = ratio, cs_attack = attackMs,
               cs_release = releaseMs, cs_knee = Some knee, cs_makeup = 1,
               cs_limiter = Some (limiterLin, limiterAttack, limiterRelease),
               cs_volume = Some makeupLin,
               cs_loggedLimiterDb = Some limiterCeilingDb\<rparr>))"

text \<open>\<^verbatim>\<open>buildBandAcompressor\<close> of the refactored main: the same thresholds, makeup and
  limiter ceiling, the clamps delegated to \<^verbatim>\<open>ClampCompressorParams\<close>, and no final
  override of the limiter timing.\<close>

definition buildBandAcompressor_refactor ::
    "FrequencyBandAnalysis option \<Rightarrow> real \<Rightarrow> real \<Rightarrow> real \<Rightarrow> real \<Rightarrow> CompressionModifiers
       \<Rightarrow> CompressorSpec" where
  "buildBandAcompressor_refactor band attackMs releaseMs ratio fallbackThresholdDb mods =
     (case band of
        None \<Rightarrow>
          (let thresholdLin = DbToLinear fallbackThresholdDb;
               makeup = DbToLinear 3;
               limiterLin = DbToLinear (-1)
           in \<lparr>cs_threshold = thresholdLin, cs_ratio = ratio, cs_attack = attackMs,
               cs_release = releaseMs, cs_knee = None, cs_makeup = 1,
               cs_limiter = Some (limiterLin, 5, 50), cs_volume = Some makeup,
               cs_loggedLimiterDb = None\<rparr>)
      | Some band \<Rightarrow>
          (let adaptiveThresholdDb =
                 (if RatioMultiplier mods < 0.3 then fba_PeakLevel band - 1
                  else (let thresholdOffset = (if RatioMultiplier mods > 3 then 3 else 6)
                        in fba_RMSLevel band + thresholdOffset));
               thresholdLin = DbToLinear adaptiveThresholdDb;
               makeupLin =
                 (if RatioMultiplier mods < 0.3 then Some (DbToLinear 0)
                  else if ratio = 0 then None
                  else (let expectedGRDb = (fba_RMSLevel band - adaptiveThresholdDb) / ratio;
                            makeupGainDb = - expectedGRDb * 0.8;
                            makeupGainDb = (if makeupGainDb < 0 then 0 else makeupGainDb)
                        in Some (DbToLinear makeupGainDb)));
               limiterCeilingDb =
                 (if RatioMultiplier mods < 0.3 then
                    (let c = fba_PeakLevel band - 0.1 in if c > 0 then 0 else c)
                  else fba_PeakLevel band - 0.8);
               limiterCeilingDb = (if limiterCeilingDb < -24 then -24 else limiterCeilingDb);
               limiterLin = DbToLinear limiterCeilingDb;
               limiterLin = (if limiterLin > 1 then 1 else limiterLin);
               attackMs = attackMs * AttackMultiplier mods;
               releaseMs = releaseMs * ReleaseMultiplier mods;
               ratio = ratio * RatioMultiplier mods;
               limiterAttack = 25 * AttackMultiplier mods;
               limiterRelease = 150 * ReleaseMultiplier mods;
               knee = GetKneeFromRatio ratio;
               (thresholdLin, ratio, attackMs, releaseMs, makeupLin) =
                 (case makeupLin of
                    None \<Rightarrow> (let (t, r, a, rl, m) =
                                   ClampCompressorParams thresholdLin ratio attackMs releaseMs 64
                             in (t, r, a, rl, 64))
                  | Some m \<Rightarrow> ClampCompressorParams thresholdLin ratio attackMs releaseMs m);
               limiterAttack = (if limiterAttack > 80 then 80 else limiterAttack);
               limiterRelease = (if limiterRelease > 8000 then 8000 else limiterRelease)
           in \<lparr>cs_threshold = thresholdLin, cs_ratio = ratio, cs_attack = attackMs,
               cs_release = releaseMs, cs_knee = Some knee, cs_makeup = 1,
               cs_limiter = Some (limiterLin, limiterAttack, limiterRelease),
               cs_volume = Some makeupLin,
               cs_loggedLimiterDb = None\<rparr>))"

text \<open>\<^verbatim>\<open>calculateAdaptiveCompression\<close> of the monolithic main. A nil analysis or the
  preset \<^verbatim>\<open>"Off"\<close> gives the empty string, here \<^term>\<open>None\<close>. The \<^verbatim>\<open>switch\<close> has no
  default: any other preset leaves threshold, ratio, attack and release at 0.\<close>

definition calculateAdaptiveCompression ::
    "DynamicsAnalysis option \<Rightarrow> DynamicsScoreAnalysis option \<Rightarrow> string
       \<Rightarrow> CompressorSpec option" where
  "calculateAdaptiveCompression analysis dsAnalysis preset =
     (case analysis of
        None \<Rightarrow> None
      | Some a \<Rightarrow>
          if preset = ''Off'' then None
          else
            (let needsLimiting = CrestFactor a > 5;
                 (threshold, ratio, attack, release, limiterCeiling) =
                   (if preset = ''Light'' then
                      (RMSLevel a + 6, GetBaseRatioFromCrest (CrestFactor a), 100, 250, -1)
                    else if preset = ''Moderate'' then
                      (RMSLevel a + 5, GetBaseRatioFromCrest (CrestFactor a), 40, 150, -1)
                    else if preset = ''Broadcast'' then
                      (RMSLevel a + 4, GetBaseRatioFromCrest (CrestFactor a), 10, 30, -1)
                    else (0, 0, 0, 0, 0));
                 (attack, release, ratio) =
                   (case dsAnalysis of
                      None \<Rightarrow> (attack, release, ratio)
                    | Some d \<Rightarrow>
                        (let mods = getCompressionModifiers (DynamicsScore d)
                         in (attack * AttackMultiplier mods,
                             release * ReleaseMultiplier mods,
                             ratio * RatioMultiplier mods)));
                 makeupGain = calculateMakeupGain a threshold ratio;
                 thresholdLin = 10 powr (threshold / 20);
                 knee = 4;
                 thresholdLin = (if thresholdLin > 1 then 1 else thresholdLin);
                 thresholdLin = (if thresholdLin < 0.00099 then 0.00099 else thresholdLin);
                 (ratio, knee) =
                   (if ratio < 1 then (1, 1)
                    else if ratio < 2 then (ratio, 2)
                    else if ratio < 4 then (ratio, 3)
                    else if ratio < 8 then (ratio, 4)
                    else if ratio < 12 then (ratio, 6)
                    else if ratio > 12 then (ratio, 7.5)
                    else (ratio, knee));
                 ratio = (if ratio > 20 then 20 else ratio);
                 attack = (if attack > 2000 then 2000 else attack);
                 attack = (if attack < 0.01 then 0.01 else attack);
                 release = (if release < 0.01 then 0.01 else release);
                 release = (if release > 9000 then 9000 else release);
                 makeupGain = (if makeupGain < 1 then 1 else makeupGain);
                 makeupGain = (if makeupGain > 64 then 64 else makeupGain);
                 limiter =
                   (if needsLimiting then
                      (let limiterLinear = 10 powr (limiterCeiling / 20);
                           limiterLinear = (if limiterLinear > 1 then 1 else limiterLinear)
                       in Some (limiterLinear, 5, 50))
                    else None)
             in Some \<lparr>cs_threshold = thresholdLin, cs_ratio = ratio, cs_attack = attack,
                      cs_release = release, cs_knee = Some knee, cs_makeup = makeupGain,
                      cs_limiter = limiter, cs_volume = None,
                      cs_loggedLimiterDb = None\<rparr>))"

text \<open>\<^verbatim>\<open>calculateAdaptiveCompression\<close> of the refactored main.\<close>

definition calculateAdaptiveCompression_refactor ::
    "DynamicsAnalysis option \<Rightarrow> DynamicsScoreAnalysis option \<Rightarrow> string
       \<Rightarrow> CompressorSpec option" where
  "calculateAdaptiveCompression_refactor analysis dsAnalysis preset =
     (case analysis of
        None \<Rightarrow> None
      | Some a \<Rightarrow>
          if preset = ''Off'' then None
          else
            (let (threshold, ratio, attack, release) =
                   (if preset = ''Light'' then
                      (RMSLevel a + 6, GetBaseRatioFromCrest (CrestFactor a), 100, 250)
                    else if preset = ''Moderate'' then
                      (RMSLevel a + 5, GetBaseRatioFromCrest (CrestFactor a), 40, 150)
                    else if preset = ''Broadcast'' then
                      (RMSLevel a + 4, GetBaseRatioFromCrest (CrestFactor a), 10, 30)
                    else (0, 0, 0, 0));
                 (attack, release, ratio) =
                   (case dsAnalysis of
                      None \<Rightarrow> (attack, release, ratio)
                    | Some d \<Rightarrow>
                        (let mods = getCompressionModifiers (DynamicsScore d)
                         in (attack * AttackMultiplier mods,
                             release * ReleaseMultiplier mods,
                             ratio * RatioMultiplier mods)));
                 thresholdLin = DbToLinear threshold;
                 makeupGain = CalculateMakeupGain (Some a) threshold ratio;
                 knee = GetKneeFromRatio ratio;
                 (thresholdLin, ratio, attack, release, makeupGain) =
                   ClampCompressorParams thresholdLin ratio attack release makeupGain;
                 limiterLin = DbToLinear (-1)
             in Some \<lparr>cs_threshold = thresholdLin, cs_ratio = ratio, cs_attack = attack,
                      cs_release = release, cs_knee = Some knee, cs_makeup = 1,
                      cs_limiter = Some (limiterLin, 5, 50), cs_volume = Some makeupGain,
                      cs_loggedLimiterDb = None\<rparr>))"

text \<open>The band map of the multiband analysis as an association list; \<^verbatim>\<open>m[key]\<close> of a
  missing key is nil.\<close>

type_synonym BandAnalysisMap = "(string \<times> FrequencyBandAnalysis) list"

text \<open>\<^verbatim>\<open>buildMultibandCompression\<close> of the monolithic main: the five band specs in
  crossover order (the surrounding crossover, mix and final limiter are fixed text).
  An empty map or the preset \<^verbatim>\<open>"Off"\<close> gives the empty string, here \<^term>\<open>None\<close>.\<close>

definition buildMultibandCompression ::
    "BandAnalysisMap \<Rightarrow> DynamicsScoreAnalysis option \<Rightarrow> string \<Rightarrow> CompressorSpec list option" where
  "buildMultibandCompression bandAnalysis dsAnalysis preset =
     (if length bandAnalysis = 0 \<or> preset = ''Off'' then None
      else
        (let mods = (case dsAnalysis of
                       Some d \<Rightarrow> getCompressionModifiers (DynamicsScore d)
                     | None \<Rightarrow> \<lparr>AttackMultiplier = 1, ReleaseMultiplier = 1,
                                RatioMultiplier = 1\<rparr>);
             sub = map_of bandAnalysis ''sub'';
             bass = map_of bandAnalysis ''bass'';
             lowMid = map_of bandAnalysis ''low_mid'';
             mid = map_of bandAnalysis ''mid'';
             high = map_of bandAnalysis ''high'';
             (attackMs, releaseMs, baseRatio) =
               (if preset = ''Light'' then (150, 300, 2.5)
                else if preset = ''Moderate'' then (100, 200, 4)
                else if preset = ''Broadcast'' then (10, 20, 6)
                else (0, 0, 0))
         in Some
              [buildBandAcompressor sub attackMs releaseMs baseRatio (-18) mods,
               buildBandAcompressor bass attackMs releaseMs baseRatio (-15) mods,
               buildBandAcompressor lowMid (attackMs * 0.8) (releaseMs * 0.9) (baseRatio * 1.2)
                 (-12) mods,
               buildBandAcompressor mid (attackMs * 0.6) (releaseMs * 0.7) (baseRatio * 1.5)
                 (-10) mods,
               buildBandAcompressor high (attackMs * 0.5) (releaseMs * 0.6) (baseRatio * 2)
                 (-8) mods]))"

definition buildMultibandCompression_refactor ::
    "BandAnalysisMap \<Rightarrow> DynamicsScoreAnalysis option \<Rightarrow> string \<Rightarrow> CompressorSpec list option" where
  "buildMultibandCompression_refactor bandAnalysis dsAnalysis preset =
     (if length bandAnalysis = 0 then None
      else
        (let mods = (case dsAnalysis of
                       Some d \<Rightarrow> getCompressionModifiers (DynamicsScore d)
                     | None \<Rightarrow> \<lparr>AttackMultiplier = 1, ReleaseMultiplier = 1,
                                RatioMultiplier = 1\<rparr>)
         in Some
              [buildBandAcompressor_refactor (map_of bandAnalysis ''sub'') 20 100 4 (-20) mods,
               buildBandAcompressor_refactor (map_of bandAnalysis ''bass'') 15 80 3.5 (-18) mods,
               buildBandAcompressor_refactor (map_of bandAnalysis ''low_mid'') 10 60 3 (-16) mods,
               buildBandAcompressor_refactor (map_of bandAnalysis ''mid'') 8 50 2.5 (-14) mods,
               buildBandAcompressor_refactor (map_of bandAnalysis ''high'') 5 40 2 (-12) mods]))"

text \<open>The documented clamp ranges of a compressor spec.\<close>

definition inClampRanges :: "CompressorSpec \<Rightarrow> bool" where
  "inClampRanges c =
     (0.00097563 \<le> cs_threshold c \<and> cs_threshold c \<le> 1 \<and>
      1 \<le> cs_ratio c \<and> cs_ratio c \<le> 20 \<and>
      0.01 \<le> cs_attack c \<and> cs_attack c \<le> 2000 \<and>
      0.01 \<le> cs_release c \<and> cs_release c \<le> 9000 \<and>
      1 \<le> cs_makeup c \<and> cs_makeup c \<le> 64 \<and>
      (case cs_volume c of None \<Rightarrow> True | Some v \<Rightarrow> 1 \<le> v \<and> v \<le> 64))"

subsection \<open>ReplayGain tags (the tag block of \<^verbatim>\<open>processFile\<close>)\<close>

text \<open>A loudness measurement is the \<^verbatim>\<open>map[string]string\<close> the parsers return; reading
  a missing key gives the empty string. \<^verbatim>\<open>strconv.ParseFloat\<close> belongs to the Go
  library and is taken as a parameter: \<^term>\<open>None\<close> is a parse error, after which the
  code's \<^verbatim>\<open>x, _ := ParseFloat\<close> continues with 0.\<close>

type_synonym Measured = "string \<rightharpoonup> string"

definition lookup :: "Measured \<Rightarrow> string \<Rightarrow> string" where
  "lookup m k = (case m k of None \<Rightarrow> [] | Some v \<Rightarrow> v)"

text \<open>A metadata value is either a number formatted by \<^verbatim>\<open>Sprintf\<close> or text copied
  from a string.\<close>

datatype TagValue = Number real | Text string

type_synonym Tags = "(string \<times> TagValue) list"

text \<open>The monolithic main (and \<^verbatim>\<open>main.go\<close>): \<open>rgTpInLin\<close>, then the three
  \<^verbatim>\<open>-metadata\<close> arguments. The gain is formatted with the unit \<^verbatim>\<open>dB\<close>, the reference
  loudness is the target text followed by \<^verbatim>\<open>LUFS\<close>.\<close>

definition replayGainTags ::
    "(string \<Rightarrow> real option) \<Rightarrow> bool \<Rightarrow> Measured option \<Rightarrow> string \<Rightarrow> Tags" where
  "replayGainTags parseFloat writeTags measured target =
     (let m = (case measured of None \<Rightarrow> Map.empty | Some m \<Rightarrow> m);
          rgTpInLin =
            (if writeTags then
               (if lookup m ''input_tp'' = [] then 1
                else (case parseFloat (lookup m ''input_tp'') of
                        None \<Rightarrow> 1
                      | Some rgTpFlt \<Rightarrow> 10 powr (rgTpFlt / 20)))
             else 0)
      in if writeTags \<and> measured \<noteq> None then
           (let inputI = (case parseFloat (lookup m ''input_i'') of None \<Rightarrow> 0 | Some v \<Rightarrow> v);
                targetFloat = (case parseFloat target of None \<Rightarrow> 0 | Some v \<Rightarrow> v);
                gain = targetFloat - inputI
            in [(''REPLAYGAIN_TRACK_GAIN'', Number gain),
                (''REPLAYGAIN_TRACK_PEAK'', Number rgTpInLin),
                (''REPLAYGAIN_REFERENCE_LOUDNESS'', Text (target @ '' LUFS''))])
         else [])"

text \<open>The refactored main copies the measured strings into the tags.\<close>

definition replayGainTags_refactor :: "bool \<Rightarrow> Measured option \<Rightarrow> Tags" where
  "replayGainTags_refactor writeTags measured =
     (case measured of
        None \<Rightarrow> []
      | Some m \<Rightarrow>
          if writeTags then
            [(''REPLAYGAIN_TRACK_GAIN'', Text (lookup m ''input_i'' @ '' dB'')),
             (''REPLAYGAIN_TRACK_PEAK'', Text (lookup m ''input_tp''))]
          else [])"

subsection \<open>Pipeline orchestrator (\<^verbatim>\<open>processFile\<close>)\<close>

text \<open>
  The audio engine is a black box. Its answers are collected in a record, one field per
  call site of \<^verbatim>\<open>processFile\<close>: an analysis returns its parsed result (\<^term>\<open>None\<close>
  for nil), a transformation returns whether the subprocess exited successfully. A
  successful transformation leaves its target file behind. Whether a failed one leaves a
  (partial) target file is the engine's business as well: \<open>leavesPartial\<close> answers it per
  stage, and \<^verbatim>\<open>processFile\<close> itself removes nothing but the listed temp files.
  \<open>now\<close> supplies the \<^verbatim>\<open>time.Now().UnixNano()\<close> stamp of each temp name.
\<close>

datatype Path = InputFile | OutputFile | TempFile string nat

datatype Stage =
    EqAnalysis | EqApply | DynamicsScoreCalc | DynNormAnalysis | DynNormApply
  | PeakCheck | AttenApply | BandAnalysis | DynamicsAnalysisStage
  | SingleBandApply | MultibandApply | MeasureLoudness | FinalEncode

record Engine =
  eqAnalysis :: "FrequencyBand list"
  eqApplyOk :: bool
  dsAnalysis :: "DynamicsScoreAnalysis option"
  dynAnalysis :: "DynamicsAnalysis option"
  dynApplyOk :: bool
  dynLoudnorm :: "Measured option"
  dynEbuR128 :: "Measured option"
  peakCheck :: "real option"
  attenApplyOk :: bool
  bandAnalysis :: BandAnalysisMap
  sbcAnalysis :: "DynamicsAnalysis option"
  compressApplyOk :: bool
  loudnorm :: "Measured option"
  ebuR128 :: "Measured option"
  encodeOk :: bool
  leavesPartial :: "Stage \<Rightarrow> bool"
  now :: "string \<Rightarrow> nat"

record ProcessConfig =
  Format :: string
  SampleRate :: string
  BitDepth :: string
  Bitrate :: string
  UseLoudnorm :: bool
  CustomLoudnorm :: bool
  IsSpeech :: bool
  writeTags :: bool
  noTranscode :: bool
  originIsAAC :: bool
  dataCompLevel :: int
  DynamicsPreset :: string
  bypassProc :: bool
  EqTarget :: string
  DynNorm :: bool
  PhaseCheck :: bool

text \<open>The state of one run: the working path, the temp-artifact list, the files this
  run has written and that still exist, the engine calls made so far (stage, input path,
  outcome), the last measurement, and the metadata handed to the final encode.\<close>

record Run =
  workingPath :: Path
  tempFiles :: "Path list"
  written :: "Path set"
  invoked :: "(Stage \<times> Path \<times> bool) list"
  measuredNow :: "Measured option"
  finalTags :: Tags

definition startRun :: Run where
  "startRun = \<lparr>workingPath = InputFile, tempFiles = [], written = {}, invoked = [],
              measuredNow = None, finalTags = []\<rparr>"

text \<open>An analysis call on \<open>input\<close>: only its outcome is recorded.\<close>

definition analysed :: "Stage \<Rightarrow> Path \<Rightarrow> bool \<Rightarrow> Run \<Rightarrow> Run" where
  "analysed st input ok r = r\<lparr>invoked := invoked r @ [(st, input, ok)]\<rparr>"

text \<open>A transformation call reading \<open>input\<close> and writing \<open>target\<close>.\<close>

definition runEngine :: "Engine \<Rightarrow> Stage \<Rightarrow> Path \<Rightarrow> bool \<Rightarrow> Path \<Rightarrow> Run \<Rightarrow> Run" where
  "runEngine env st input ok target r =
     r\<lparr>invoked := invoked r @ [(st, input, ok)],
       written := (if ok \<or> leavesPartial env st then insert target (written r)
                   else written r)\<rparr>"

definition appendTemp :: "Path \<Rightarrow> Run \<Rightarrow> Run" where
  "appendTemp p r = r\<lparr>tempFiles := tempFiles r @ [p]\<rparr>"

text \<open>\<^verbatim>\<open>cleanupTempFiles\<close>: \<^verbatim>\<open>os.Remove\<close> on every listed path, errors ignored.\<close>

definition cleanupTempFiles :: "Run \<Rightarrow> Run" where
  "cleanupTempFiles r = r\<lparr>written := written r - set (tempFiles r)\<rparr>"

text \<open>A stage either continues with a value (\<^term>\<open>Inr\<close>) or hits a
  \<^verbatim>\<open>return false\<close> (\<^term>\<open>Inl\<close>, with the state at that point).\<close>

definition andThen :: "Run + 'a \<Rightarrow> ('a \<Rightarrow> Run + 'b) \<Rightarrow> Run + 'b" where
  "andThen x f = (case x of Inl r \<Rightarrow> Inl r | Inr v \<Rightarrow> f v)"

text \<open>Stage 1, EQ analysis and application (both mains).\<close>

definition stageEq :: "Engine \<Rightarrow> ProcessConfig \<Rightarrow> Run \<Rightarrow> Run + Run" where
  "stageEq env cfg r =
     (if EqTarget cfg \<noteq> [] \<and> EqTarget cfg \<noteq> ''Off'' \<and> \<not> bypassProc cfg then
        (let eqBandAnalysis = eqAnalysis env;
             r = analysed EqAnalysis (workingPath r) (eqBandAnalysis \<noteq> []) r
         in if eqBandAnalysis = [] then Inl r
            else
              (let eqFilter = buildEqFilter eqBandAnalysis (EqTarget cfg) in
               if eqFilter \<noteq> [] then
                 (let eqTempPath = TempFile ''tnt_eq'' (now env ''eq'');
                      r = appendTemp eqTempPath r;
                      r = runEngine env EqApply (workingPath r) (eqApplyOk env) eqTempPath r
                  in if \<not> eqApplyOk env then Inl r
                     else Inr (r\<lparr>workingPath := eqTempPath\<rparr>))
               else Inr r))
      else Inr r)"

text \<open>The dynamics score, computed on the input file whenever a dynamics preset is set.\<close>

definition stageDynamicsScore :: "Engine \<Rightarrow> ProcessConfig \<Rightarrow> Run \<Rightarrow> Run + Run" where
  "stageDynamicsScore env cfg r =
     (if \<not> bypassProc cfg \<and> (DynamicsPreset cfg \<noteq> [] \<and> DynamicsPreset cfg \<noteq> ''Off'') then
        (let r = analysed DynamicsScoreCalc InputFile (dsAnalysis env \<noteq> None) r
         in if dsAnalysis env = None then Inl r else Inr r)
      else Inr r)"

text \<open>The two loudness measurements, as they appear after dynamic normalization and
  again as stage 4.\<close>

definition measureStage ::
    "Measured option \<Rightarrow> Measured option \<Rightarrow> ProcessConfig \<Rightarrow> Run \<Rightarrow> Run + Run" where
  "measureStage viaLoudnorm viaEbuR128 cfg r =
     andThen
       (if UseLoudnorm cfg then
          (let r = analysed MeasureLoudness (workingPath r) (viaLoudnorm \<noteq> None) r;
               r = r\<lparr>measuredNow := viaLoudnorm\<rparr>
           in if viaLoudnorm = None then Inl r else Inr r)
        else Inr r)
       (\<lambda>r. if writeTags cfg then
               (let r = analysed MeasureLoudness (workingPath r) (viaEbuR128 \<noteq> None) r;
                    r = r\<lparr>measuredNow := viaEbuR128\<rparr>
                in if viaEbuR128 = None then Inl r else Inr r)
             else Inr r)"

text \<open>Stage 2 of the monolithic main. \<^verbatim>\<open>analyzeDynaudnormParams\<close> of a non-nil analysis
  is non-nil and the filter text is never empty, so both inner tests succeed there.\<close>

definition stageDynNorm :: "Engine \<Rightarrow> ProcessConfig \<Rightarrow> Run \<Rightarrow> Run + Run" where
  "stageDynNorm env cfg r =
     (if DynNorm cfg \<and> \<not> bypassProc cfg then
        (let dynamicsAnalysis = dynAnalysis env;
             r = analysed DynNormAnalysis (workingPath r) (dynamicsAnalysis \<noteq> None) r
         in if dynamicsAnalysis = None then Inl r
            else
              (case analyzeDynaudnormParams dynamicsAnalysis of
                 None \<Rightarrow> Inr r
               | Some dynParams \<Rightarrow>
                   (let dynTempPath = TempFile ''tnt_dyn'' (now env ''dyn'');
                        r = appendTemp dynTempPath r;
                        r = runEngine env DynNormApply (workingPath r) (dynApplyOk env) dynTempPath r
                    in if \<not> dynApplyOk env then Inl r
                       else measureStage (dynLoudnorm env) (dynEbuR128 env) cfg
                              (r\<lparr>workingPath := dynTempPath\<rparr>))))
      else Inr r)"

text \<open>Stage 3 of the monolithic main: the attenuation pre-pass, the analysis, and the
  one application of whichever compression filter was built. The error of the quick peak
  check is discarded by the code (\<^verbatim>\<open>output, _ :=\<close>).\<close>

definition stageAttenuate :: "Engine \<Rightarrow> ProcessConfig \<Rightarrow> Run \<Rightarrow> Run + (Path \<times> Run)" where
  "stageAttenuate env cfg r =
     (if DynamicsPreset cfg = ''Broadcast'' then
        (let r = analysed PeakCheck (workingPath r) (peakCheck env \<noteq> None) r in
         case peakCheck env of
           None \<Rightarrow> Inr (workingPath r, r)
         | Some peakLevel \<Rightarrow>
             if peakLevel > -5 then
               (let attenuatedPath = TempFile ''tnt_atten'' (now env ''atten'');
                    r = appendTemp attenuatedPath r;
                    r = runEngine env AttenApply (workingPath r) (attenApplyOk env) attenuatedPath r
                in if \<not> attenApplyOk env then Inl r else Inr (attenuatedPath, r))
             else Inr (workingPath r, r))
      else Inr (workingPath r, r))"

definition stageBuildCompression ::
    "Engine \<Rightarrow> ProcessConfig \<Rightarrow> Path \<times> Run \<Rightarrow> Run + (bool \<times> Path \<times> Run)" where
  "stageBuildCompression env cfg = (\<lambda>(attenuatedPath, r).
     if DynamicsPreset cfg = ''Broadcast'' then
       (let r = analysed BandAnalysis attenuatedPath (bandAnalysis env \<noteq> []) r in
        if bandAnalysis env = [] then Inl r
        else Inr (buildMultibandCompression (bandAnalysis env) (dsAnalysis env)
                    (DynamicsPreset cfg) \<noteq> None, attenuatedPath, r))
     else
       (let r = analysed DynamicsAnalysisStage (workingPath r) (sbcAnalysis env \<noteq> None) r in
        if sbcAnalysis env = None then Inl r
        else Inr (calculateAdaptiveCompression (sbcAnalysis env) (dsAnalysis env)
                    (DynamicsPreset cfg) \<noteq> None, attenuatedPath, r)))"

definition stageApplyCompression ::
    "Engine \<Rightarrow> ProcessConfig \<Rightarrow> bool \<times> Path \<times> Run \<Rightarrow> Run + Run" where
  "stageApplyCompression env cfg = (\<lambda>(haveFilter, attenuatedPath, r).
     if haveFilter then
       (let compTempPath = TempFile ''tnt_comp'' (now env ''comp'');
            r = appendTemp compTempPath r;
            compressionInput =
              (if DynamicsPreset cfg = ''Broadcast'' \<and> attenuatedPath \<noteq> workingPath r
               then attenuatedPath else workingPath r);
            st = (if DynamicsPreset cfg = ''Broadcast'' then MultibandApply
                  else SingleBandApply);
            r = runEngine env st compressionInput (compressApplyOk env) compTempPath r
        in if \<not> compressApplyOk env then Inl r
           else Inr (r\<lparr>workingPath := compTempPath\<rparr>))
     else Inr r)"

definition stageDynamics :: "Engine \<Rightarrow> ProcessConfig \<Rightarrow> Run \<Rightarrow> Run + Run" where
  "stageDynamics env cfg r =
     (if DynamicsPreset cfg \<noteq> [] \<and> DynamicsPreset cfg \<noteq> ''Off'' \<and> \<not> bypassProc cfg then
        andThen (andThen (stageAttenuate env cfg r) (stageBuildCompression env cfg))
          (stageApplyCompression env cfg)
      else Inr r)"

text \<open>The final encode: the tags are added to the arguments, the engine writes the
  output path, and the outcome is the function's result.\<close>

definition stageEncode ::
    "Engine \<Rightarrow> ProcessConfig \<Rightarrow> (string \<Rightarrow> real option) \<Rightarrow> string \<Rightarrow> Run \<Rightarrow> bool \<times> Run" where
  "stageEncode env cfg parseFloat target r =
     (let r = r\<lparr>finalTags := replayGainTags parseFloat (writeTags cfg) (measuredNow r) target\<rparr>;
          r = runEngine env FinalEncode (workingPath r) (encodeOk env) OutputFile r
      in (encodeOk env, r))"

text \<open>\<^verbatim>\<open>processFile\<close> of the monolithic main. \<open>target\<close> is the loudness target text
  chosen from the normalization standard. The deferred closure reads \<open>tempFiles\<close> when
  the function returns, so the cleanup sees the list as it is at that exit.\<close>

definition processFileBody ::
    "Engine \<Rightarrow> ProcessConfig \<Rightarrow> (string \<Rightarrow> real option) \<Rightarrow> string \<Rightarrow> bool \<times> Run" where
  "processFileBody env cfg parseFloat target =
     (case andThen (andThen (andThen (andThen (stageEq env cfg startRun)
                      (stageDynamicsScore env cfg))
                      (stageDynNorm env cfg))
                      (stageDynamics env cfg))
                      (measureStage (loudnorm env) (ebuR128 env) cfg) of
        Inl r \<Rightarrow> (False, r)
      | Inr r \<Rightarrow> stageEncode env cfg parseFloat target r)"

definition processFile ::
    "Engine \<Rightarrow> ProcessConfig \<Rightarrow> (string \<Rightarrow> real option) \<Rightarrow> string \<Rightarrow> bool \<times> Run" where
  "processFile env cfg parseFloat target =
     (let (ok, r) = processFileBody env cfg parseFloat target
      in (ok, cleanupTempFiles r))"

text \<open>The refactored main. Stage 2 has no measurement of its own.\<close>

definition stageDynNorm_refactor :: "Engine \<Rightarrow> ProcessConfig \<Rightarrow> Run \<Rightarrow> Run + Run" where
  "stageDynNorm_refactor env cfg r =
     (if DynNorm cfg \<and> \<not> bypassProc cfg then
        (let dynamicsAnalysis = dynAnalysis env;
             r = analysed DynNormAnalysis (workingPath r) (dynamicsAnalysis \<noteq> None) r
         in if dynamicsAnalysis = None then Inl r
            else
              (case CalculateDynaudnormParams dynamicsAnalysis of
                 None \<Rightarrow> Inr r
               | Some dynParams \<Rightarrow>
                   (let dynTempPath = TempFile ''tnt_dyn'' (now env ''dyn'');
                        r = appendTemp dynTempPath r;
                        r = runEngine env DynNormApply (workingPath r) (dynApplyOk env) dynTempPath r
                    in if \<not> dynApplyOk env then Inl r
                       else Inr (r\<lparr>workingPath := dynTempPath\<rparr>))))
      else Inr r)"

text \<open>Stage 3 of the refactored main. The attenuated file is used only when its
  invocation succeeded, a failed or missing analysis skips the compression, and the
  single-band result replaces the working path only on success; only the multiband
  application returns false on failure.\<close>

definition stageAttenuate_refactor :: "Engine \<Rightarrow> Run \<Rightarrow> Path \<times> Run" where
  "stageAttenuate_refactor env r =
     (let r = analysed PeakCheck (workingPath r) (peakCheck env \<noteq> None) r in
      case peakCheck env of
        None \<Rightarrow> (workingPath r, r)
      | Some peakLevel \<Rightarrow>
          if peakLevel > -5 then
            (let attenPath = TempFile ''tnt_atten'' (now env ''atten'');
                 r = appendTemp attenPath r;
                 r = runEngine env AttenApply (workingPath r) (attenApplyOk env) attenPath r
             in if attenApplyOk env then (attenPath, r) else (workingPath r, r))
          else (workingPath r, r))"

definition stageSingleBand_refactor :: "Engine \<Rightarrow> ProcessConfig \<Rightarrow> Run \<Rightarrow> Run" where
  "stageSingleBand_refactor env cfg r =
     (let r = analysed DynamicsAnalysisStage (workingPath r) (sbcAnalysis env \<noteq> None) r in
      if sbcAnalysis env \<noteq> None then
        (if calculateAdaptiveCompression_refactor (sbcAnalysis env) (dsAnalysis env)
              (DynamicsPreset cfg) \<noteq> None then
           (let compTempPath = TempFile ''tnt_comp'' (now env ''comp'');
                r = appendTemp compTempPath r;
                r = runEngine env SingleBandApply (workingPath r) (compressApplyOk env)
                      compTempPath r
            in if compressApplyOk env then r\<lparr>workingPath := compTempPath\<rparr> else r)
         else r)
      else r)"

definition stageDynamics_refactor :: "Engine \<Rightarrow> ProcessConfig \<Rightarrow> Run \<Rightarrow> Run + Run" where
  "stageDynamics_refactor env cfg r =
     (if DynamicsPreset cfg \<noteq> [] \<and> DynamicsPreset cfg \<noteq> ''Off'' \<and> \<not> bypassProc cfg then
        (let (haveMultiband, r) =
               (if DynamicsPreset cfg = ''Broadcast'' then
                  (let (attenuatedPath, r) = stageAttenuate_refactor env r;
                       r = analysed BandAnalysis attenuatedPath (bandAnalysis env \<noteq> []) r
                   in if bandAnalysis env \<noteq> [] then
                        (buildMultibandCompression_refactor (bandAnalysis env) (dsAnalysis env)
                           (DynamicsPreset cfg) \<noteq> None, r)
                      else (False, r))
                else (False, stageSingleBand_refactor env cfg r))
         in if haveMultiband then
              (let mbcTempPath = TempFile ''tnt_mbc'' (now env ''mbc'');
                   r = appendTemp mbcTempPath r;
                   r = runEngine env MultibandApply (workingPath r) (compressApplyOk env)
                         mbcTempPath r
               in if \<not> compressApplyOk env then Inl r
                  else Inr (r\<lparr>workingPath := mbcTempPath\<rparr>))
            else Inr r)
      else Inr r)"

definition stageEncode_refactor :: "Engine \<Rightarrow> ProcessConfig \<Rightarrow> Run \<Rightarrow> bool \<times> Run" where
  "stageEncode_refactor env cfg r =
     (let r = r\<lparr>finalTags := replayGainTags_refactor (writeTags cfg) (measuredNow r)\<rparr>;
          r = runEngine env FinalEncode (workingPath r) (encodeOk env) OutputFile r
      in (encodeOk env, r))"

definition processFileBody_refactor :: "Engine \<Rightarrow> ProcessConfig \<Rightarrow> bool \<times> Run" where
  "processFileBody_refactor env cfg =
     (case andThen (andThen (andThen (andThen (stageEq env cfg startRun)
                      (stageDynamicsScore env cfg))
                      (stageDynNorm_refactor env cfg))
                      (stageDynamics_refactor env cfg))
                      (measureStage (loudnorm env) (ebuR128 env) cfg) of
        Inl r \<Rightarrow> (False, r)
      | Inr r \<Rightarrow> stageEncode_refactor env cfg r)"

definition processFile_refactor :: "Engine \<Rightarrow> ProcessConfig \<Rightarrow> bool \<times> Run" where
  "processFile_refactor env cfg =
     (let (ok, r) = processFileBody_refactor env cfg
      in (ok, cleanupTempFiles r))"

text \<open>Some call of stage \<open>st\<close> in the run failed.\<close>

definition stageFailed :: "Stage \<Rightarrow> Run \<Rightarrow> bool" where
  "stageFailed st r = list_ex (\<lambda>(s, input, ok). s = st \<and> \<not> ok) (invoked r)"

text \<open>Invariants of a run in progress: every file written so far is in the temp list
  (which never holds the output path), and every failed call so far belongs to a given
  set of stages.\<close>

definition tempsCover :: "Run \<Rightarrow> bool" where
  "tempsCover r = (written r \<subseteq> set (tempFiles r) \<and> OutputFile \<notin> set (tempFiles r))"

definition failuresWithin :: "Stage set \<Rightarrow> Run \<Rightarrow> bool" where
  "failuresWithin tolerated r = (\<forall>(st, input, ok) \<in> set (invoked r). ok \<or> st \<in> tolerated)"

text \<open>The stages whose failure the refactored main does not turn into a
  \<^verbatim>\<open>return false\<close>.\<close>

definition toleratedByRefactor :: "Stage set" where
  "toleratedByRefactor =
     {PeakCheck, AttenApply, BandAnalysis, DynamicsAnalysisStage, SingleBandApply}"

subsection \<open>Sample inputs\<close>

text \<open>Concrete engine answers and a concrete request, used to run the model: every
  call succeeds, and every optional stage of the request is switched off.\<close>

definition sampleAnalysis :: DynamicsAnalysis where
  "sampleAnalysis = \<lparr>PeakLevel = -3, RMSPeak = -14, RMSTrough = -40, CrestFactor = 6,
                     DynamicRange = 30, RMSLevel = -20, NoiseFloor = -60\<rparr>"

definition sampleMeasured :: Measured where
  "sampleMeasured = [''input_i'' \<mapsto> ''-18.0'', ''input_tp'' \<mapsto> ''-3.0'',
                     ''input_lra'' \<mapsto> ''6.4'', ''input_thresh'' \<mapsto> ''-28.1'']"

definition sampleParseFloat :: "string \<Rightarrow> real option" where
  "sampleParseFloat s =
     (if s = ''-18.0'' then Some (-18)
      else if s = ''-3.0'' then Some (-3)
      else if s = ''-23'' then Some (-23)
      else None)"

definition sampleBand :: "string \<Rightarrow> real \<Rightarrow> FrequencyBandAnalysis" where
  "sampleBand name peak =
     \<lparr>BandName = name, fba_PeakLevel = peak, fba_RMSLevel = peak - 15,
      fba_CrestFactor = 3, fba_DynamicRange = 20\<rparr>"

definition sampleEngine :: Engine where
  "sampleEngine =
     \<lparr>eqAnalysis = bandsWithRMS (replicate 10 (-20)), eqApplyOk = True,
      dsAnalysis = Some \<lparr>ds_RMSPeak = -14, ds_RMSLevel = -20, ds_CrestFactor = 9,
                         DynamicsScore = 18\<rparr>,
      dynAnalysis = Some sampleAnalysis, dynApplyOk = True,
      dynLoudnorm = Some sampleMeasured, dynEbuR128 = Some sampleMeasured,
      peakCheck = Some (-3), attenApplyOk = True,
      bandAnalysis = [(''sub'', sampleBand ''sub'' (-30)), (''bass'', sampleBand ''bass'' (-12)),
                      (''low_mid'', sampleBand ''low_mid'' (-9)),
                      (''mid'', sampleBand ''mid'' (-6)), (''high'', sampleBand ''high'' (-14))],
      sbcAnalysis = Some sampleAnalysis, compressApplyOk = True,
      loudnorm = Some sampleMeasured, ebuR128 = Some sampleMeasured,
      encodeOk = True, leavesPartial = (\<lambda>_. False), now = (\<lambda>_. 0)\<rparr>"

definition sampleConfig :: ProcessConfig where
  "sampleConfig =
     \<lparr>Format = ''Opus'', SampleRate = ''48000'', BitDepth = ''16'', Bitrate = ''128'',
      UseLoudnorm = False, CustomLoudnorm = False, IsSpeech = False, writeTags = False,
      noTranscode = False, originIsAAC = False, dataCompLevel = 5,
      DynamicsPreset = ''Off'', bypassProc = False, EqTarget = ''Off'', DynNorm = False,
      PhaseCheck = False\<rparr>"

text \<open>What the body of \<^verbatim>\<open>processFile\<close> hands to the deferred cleanup: listed temp
  files and at most the output file besides them; on success the output file is there and
  all failed calls are within the tolerated stages; on failure an output file is there only
  if the final encode itself failed and the engine left its partial file.\<close>

definition bodyOutcome :: "Engine \<Rightarrow> Stage set \<Rightarrow> bool \<times> Run \<Rightarrow> bool" where
  "bodyOutcome env T = (\<lambda>(ok, r).
     OutputFile \<notin> set (tempFiles r) \<and>
     written r \<subseteq> insert OutputFile (set (tempFiles r)) \<and>
     (if ok then OutputFile \<in> written r \<and> failuresWithin T r
      else OutputFile \<in> written r \<longrightarrow>
             stageFailed FinalEncode r \<and> leavesPartial env FinalEncode))"

section \<open>Theorems\<close>

subsection \<open>Helper facts on the modifier mapping\<close>

lemma not_isCont_left_jump:
  fixes f :: "real \<Rightarrow> real"
  assumes c: "0 < c" and jump: "\<And>x. x < a \<Longrightarrow> c \<le> \<bar>f x - f a\<bar>"
  shows "\<not> isCont f a"
proof
  assume "isCont f a"
  then have "\<forall>r>0. \<exists>s>0. \<forall>x. x \<noteq> a \<and> dist x a < s \<longrightarrow> dist (f x) (f a) < r"
    by (simp add: isCont_def LIM_def)
  with c obtain s where s: "0 < s" and near: "\<forall>x. x \<noteq> a \<and> dist x a < s \<longrightarrow> dist (f x) (f a) < c"
    by blast
  have "dist (f (a - s / 2)) (f a) < c"
    using s near by (simp add: dist_real_def)
  moreover have "c \<le> \<bar>f (a - s / 2) - f a\<bar>"
    using s by (intro jump) simp
  ultimately show False
    by (simp add: dist_real_def)
qed

lemma not_isCont_right_jump:
  fixes f :: "real \<Rightarrow> real"
  assumes c: "0 < c" and jump: "\<And>x. a < x \<Longrightarrow> c \<le> \<bar>f x - f a\<bar>"
  shows "\<not> isCont f a"
proof
  assume "isCont f a"
  then have "\<forall>r>0. \<exists>s>0. \<forall>x. x \<noteq> a \<and> dist x a < s \<longrightarrow> dist (f x) (f a) < r"
    by (simp add: isCont_def LIM_def)
  with c obtain s where s: "0 < s" and near: "\<forall>x. x \<noteq> a \<and> dist x a < s \<longrightarrow> dist (f x) (f a) < c"
    by blast
  have "dist (f (a + s / 2)) (f a) < c"
    using s near by (simp add: dist_real_def)
  moreover have "c \<le> \<bar>f (a + s / 2) - f a\<bar>"
    using s by (intro jump) simp
  ultimately show False
    by (simp add: dist_real_def)
qed


lemma excess_pos: "21 < (ds::real) \<Longrightarrow> 0 < min (ds - 21) 79"
  by simp

lemma inv_le_half: "2 \<le> (s::real) \<Longrightarrow> 1 / s \<le> 1 / 2"
  by (simp add: field_simps)

lemma scale_ge: "0 < (e::real) \<Longrightarrow> 2 \<le> 2 + 2 * e / 79"
  by simp

lemma ratio_ge: "0 < (e::real) \<Longrightarrow> 4 \<le> 4 + 4 * e / 79"
  by simp

lemma attackOf_low: "ds < 9 \<Longrightarrow> attackOf ds = 4"
  by (simp add: attackOf_def getCompressionModifiers_def Let_def)
lemma attackOf_mid: "9 \<le> ds \<Longrightarrow> ds < 15 \<Longrightarrow> attackOf ds = 2"
  by (simp add: attackOf_def getCompressionModifiers_def Let_def)
lemma attackOf_normal: "15 \<le> ds \<Longrightarrow> ds \<le> 21 \<Longrightarrow> attackOf ds = 1"
  by (simp add: attackOf_def getCompressionModifiers_def Let_def)
lemma attackOf_high: "21 < ds \<Longrightarrow> attackOf ds = 1 / (2 + 2 * min (ds - 21) 79 / 79)"
  by (simp add: attackOf_def getCompressionModifiers_def Let_def)
lemma releaseOf_attackOf: "releaseOf ds = attackOf ds"
  by (simp add: attackOf_def releaseOf_def getCompressionModifiers_def Let_def)
lemma ratioOf_low: "ds < 9 \<Longrightarrow> ratioOf ds = 0.15"
  by (simp add: ratioOf_def getCompressionModifiers_def Let_def)
lemma ratioOf_mid: "9 \<le> ds \<Longrightarrow> ds < 15 \<Longrightarrow> ratioOf ds = 2.1"
  by (simp add: ratioOf_def getCompressionModifiers_def Let_def)
lemma ratioOf_normal: "15 \<le> ds \<Longrightarrow> ds \<le> 21 \<Longrightarrow> ratioOf ds = 1"
  by (simp add: ratioOf_def getCompressionModifiers_def Let_def)
lemma ratioOf_high: "21 < ds \<Longrightarrow> ratioOf ds = 4 + 4 * min (ds - 21) 79 / 79"
  by (simp add: ratioOf_def getCompressionModifiers_def Let_def)

lemma attackOf_high_le: assumes "21 < ds" shows "attackOf ds \<le> 1 / 2"
proof -
  have "0 < min (ds - 21) 79" using assms by (rule excess_pos)
  then have "2 \<le> 2 + 2 * min (ds - 21) 79 / 79" by (rule scale_ge)
  then have "1 / (2 + 2 * min (ds - 21) 79 / 79) \<le> 1 / 2"
    by (rule inv_le_half)
  moreover have "attackOf ds = 1 / (2 + 2 * min (ds - 21) 79 / 79)"
    using assms by (rule attackOf_high)
  ultimately show ?thesis by linarith
qed

lemma ratioOf_high_ge: assumes "21 < ds" shows "4 \<le> ratioOf ds"
proof -
  have "0 < min (ds - 21) 79" using assms by (rule excess_pos)
  then have "4 \<le> 4 + 4 * min (ds - 21) 79 / 79" by (rule ratio_ge)
  moreover have "ratioOf ds = 4 + 4 * min (ds - 21) 79 / 79" using assms by (rule ratioOf_high)
  ultimately show ?thesis by linarith
qed


lemma continuous_on_const_piece:
  fixes f :: "real \<Rightarrow> real"
  assumes "\<And>x. x \<in> S \<Longrightarrow> f x = c"
  shows "continuous_on S f"
proof -
  have "continuous_on S f = continuous_on S (\<lambda>_. c)"
    by (rule continuous_on_cong) (simp_all add: assms)
  then show ?thesis by simp
qed

lemma attackOf_continuous_high: "continuous_on {21<..} attackOf"
proof -
  have "continuous_on {21<..} attackOf =
        continuous_on {21<..} (\<lambda>ds::real. 1 / (2 + 2 * min (ds - 21) 79 / 79))"
    by (rule continuous_on_cong) (simp_all add: attackOf_high)
  moreover have "continuous_on {21<..} (\<lambda>ds::real. 1 / (2 + 2 * min (ds - 21) 79 / 79))"
  proof (rule continuous_on_divide)
    show "continuous_on {21<..} (\<lambda>ds::real. 2 + 2 * min (ds - 21) 79 / 79)"
      by (intro continuous_intros) simp_all
    show "\<forall>x\<in>{21<..}. 2 + 2 * min (x - 21) 79 / 79 \<noteq> (0::real)"
    proof
      fix x :: real assume "x \<in> {21<..}"
      then have "0 < min (x - 21) 79" by simp
      then have "2 \<le> 2 + 2 * min (x - 21) 79 / 79" by (rule scale_ge)
      then show "2 + 2 * min (x - 21) 79 / 79 \<noteq> 0" by linarith
    qed
  qed (rule continuous_on_const)
  ultimately show ?thesis by simp
qed

lemma ratioOf_continuous_high: "continuous_on {21<..} ratioOf"
proof -
  have "continuous_on {21<..} ratioOf =
        continuous_on {21<..} (\<lambda>ds::real. 4 + 4 * min (ds - 21) 79 / 79)"
    by (rule continuous_on_cong) (simp_all add: ratioOf_high)
  moreover have "continuous_on {21<..} (\<lambda>ds::real. 4 + 4 * min (ds - 21) 79 / 79)"
    by (intro continuous_intros) simp_all
  ultimately show ?thesis by simp
qed

lemma attackOf_jump_9: "\<not> isCont attackOf 9"
  by (rule not_isCont_left_jump[where c = 2]) (simp_all add: attackOf_low attackOf_mid)

lemma attackOf_jump_15: "\<not> isCont attackOf 15"
proof (rule not_isCont_left_jump[where c = 1])
  fix x :: real assume "x < 15"
  then have "attackOf x = 4 \<or> attackOf x = 2"
    using attackOf_low[of x] attackOf_mid[of x] by linarith
  then show "1 \<le> \<bar>attackOf x - attackOf 15\<bar>" by (auto simp: attackOf_normal)
qed simp

lemma attackOf_jump_21: "\<not> isCont attackOf 21"
proof (rule not_isCont_right_jump[where c = "1/2"])
  fix x :: real assume x: "21 < x"
  show "1/2 \<le> \<bar>attackOf x - attackOf 21\<bar>"
    using attackOf_high_le[OF x] by (simp add: attackOf_normal)
qed simp

lemma ratioOf_jump_9: "\<not> isCont ratioOf 9"
  by (rule not_isCont_left_jump[where c = 1]) (simp_all add: ratioOf_low ratioOf_mid)

lemma ratioOf_jump_15: "\<not> isCont ratioOf 15"
proof (rule not_isCont_left_jump[where c = "1/2"])
  fix x :: real assume "x < 15"
  then have "ratioOf x = 0.15 \<or> ratioOf x = 2.1"
    using ratioOf_low[of x] ratioOf_mid[of x] by linarith
  then show "1/2 \<le> \<bar>ratioOf x - ratioOf 15\<bar>" by (auto simp: ratioOf_normal)
qed simp

lemma ratioOf_jump_21: "\<not> isCont ratioOf 21"
proof (rule not_isCont_right_jump[where c = 3])
  fix x :: real assume x: "21 < x"
  show "3 \<le> \<bar>ratioOf x - ratioOf 21\<bar>"
    using ratioOf_high_ge[OF x] by (simp add: ratioOf_normal)
qed simp

lemma releaseOf_eq_attackOf: "releaseOf = attackOf"
  by (rule ext) (rule releaseOf_attackOf)

subsection \<open>C3: the modifier mapping, branch by branch\<close>

text \<open>
  Claim C3. For every dynamics score \<open>ds\<close> the modifier mapping returns
  \<open>{4, 4, 0.15}\<close> when \<open>ds < 9\<close>, \<open>{2, 2, 2.1}\<close> when \<open>9 \<le> ds < 15\<close>, exactly
  \<open>{1, 1, 1}\<close> when \<open>15 \<le> ds \<le> 21\<close> (in particular at 21), and for \<open>ds > 21\<close>, with
  \<open>excess = min (ds - 21) 79\<close> and \<open>scale = 2 + 2 * excess / 79\<close>, attack and release
  multipliers \<open>1 / scale\<close> and ratio multiplier \<open>4 + 4 * excess / 79\<close>, which never exceeds
  8 and equals 8 from \<open>ds = 100\<close> on. The scores 9 and 15 each fall into one branch only:
  9 into the second, 15 into the third.
\<close>

theorem getCompressionModifiers_piecewise:
  "(ds < 9 \<longrightarrow> getCompressionModifiers ds =
      \<lparr>AttackMultiplier = 4, ReleaseMultiplier = 4, RatioMultiplier = 0.15\<rparr>) \<and>
   (9 \<le> ds \<and> ds < 15 \<longrightarrow> getCompressionModifiers ds =
      \<lparr>AttackMultiplier = 2, ReleaseMultiplier = 2, RatioMultiplier = 2.1\<rparr>) \<and>
   (15 \<le> ds \<and> ds \<le> 21 \<longrightarrow> getCompressionModifiers ds =
      \<lparr>AttackMultiplier = 1, ReleaseMultiplier = 1, RatioMultiplier = 1\<rparr>) \<and>
   (21 < ds \<longrightarrow>
      (let excess = min (ds - 21) 79; scale = 2 + 2 * excess / 79 in
       getCompressionModifiers ds =
         \<lparr>AttackMultiplier = 1 / scale, ReleaseMultiplier = 1 / scale,
          RatioMultiplier = 4 + 4 * excess / 79\<rparr>)) \<and>
   (100 \<le> ds \<longrightarrow> RatioMultiplier (getCompressionModifiers ds) = 8) \<and>
   RatioMultiplier (getCompressionModifiers ds) \<le> 8 \<and>
   getCompressionModifiers 9 =
      \<lparr>AttackMultiplier = 2, ReleaseMultiplier = 2, RatioMultiplier = 2.1\<rparr> \<and>
   getCompressionModifiers 15 =
      \<lparr>AttackMultiplier = 1, ReleaseMultiplier = 1, RatioMultiplier = 1\<rparr> \<and>
   getCompressionModifiers 21 =
      \<lparr>AttackMultiplier = 1, ReleaseMultiplier = 1, RatioMultiplier = 1\<rparr>"
  by (simp add: getCompressionModifiers_def Let_def min_def)

theorem getCompressionModifiers_piecewise_witness:
  "(5::real) < 9 \<and> getCompressionModifiers 5 =
      \<lparr>AttackMultiplier = 4, ReleaseMultiplier = 4, RatioMultiplier = 0.15\<rparr> \<and>
   (9::real) \<le> 12 \<and> (12::real) < 15 \<and> getCompressionModifiers 12 =
      \<lparr>AttackMultiplier = 2, ReleaseMultiplier = 2, RatioMultiplier = 2.1\<rparr> \<and>
   (15::real) \<le> 18 \<and> (18::real) \<le> 21 \<and> getCompressionModifiers 18 =
      \<lparr>AttackMultiplier = 1, ReleaseMultiplier = 1, RatioMultiplier = 1\<rparr> \<and>
   (21::real) < 60.5 \<and> getCompressionModifiers 60.5 =
      \<lparr>AttackMultiplier = 1 / 3, ReleaseMultiplier = 1 / 3, RatioMultiplier = 6\<rparr> \<and>
   (100::real) \<le> 250 \<and> getCompressionModifiers 250 =
      \<lparr>AttackMultiplier = 1 / 4, ReleaseMultiplier = 1 / 4, RatioMultiplier = 8\<rparr>"
  using getCompressionModifiers_piecewise[of 5] getCompressionModifiers_piecewise[of 12]
    getCompressionModifiers_piecewise[of 18] getCompressionModifiers_piecewise[of "60.5"]
    getCompressionModifiers_piecewise[of 250]
  by (simp add: Let_def)

subsection \<open>C4: continuity of the modifier mapping\<close>

text \<open>
  Claim C4 says the mapping is continuous in the score, without a jump at 9, 15 and 21.
  The attack multiplier is 4 immediately below 9 and 2 at 9, so it is not continuous
  there.
\<close>

theorem attackOf_not_continuous_at_9: "\<not> isCont attackOf 9"
  by (rule not_isCont_left_jump[where c = 2]) (simp_all add: attackOf_low attackOf_mid)

text \<open>
  Claim C4, amended. The modifier mapping is a total, deterministic function of the
  score that is piecewise continuous: each of the attack, release and ratio multipliers
  is continuous on the scores below 9, on \<open>[9, 15)\<close>, on \<open>[15, 21]\<close> and on the scores
  above 21, and each of them has a jump at 9, at 15 and at 21.
\<close>

theorem modifier_mapping_piecewise_continuous:
  "continuous_on {..<9} attackOf \<and> continuous_on {9..<15} attackOf \<and>
   continuous_on {15..21} attackOf \<and> continuous_on {21<..} attackOf \<and>
   continuous_on {..<9} releaseOf \<and> continuous_on {9..<15} releaseOf \<and>
   continuous_on {15..21} releaseOf \<and> continuous_on {21<..} releaseOf \<and>
   continuous_on {..<9} ratioOf \<and> continuous_on {9..<15} ratioOf \<and>
   continuous_on {15..21} ratioOf \<and> continuous_on {21<..} ratioOf \<and>
   \<not> isCont attackOf 9 \<and> \<not> isCont attackOf 15 \<and> \<not> isCont attackOf 21 \<and>
   \<not> isCont releaseOf 9 \<and> \<not> isCont releaseOf 15 \<and> \<not> isCont releaseOf 21 \<and>
   \<not> isCont ratioOf 9 \<and> \<not> isCont ratioOf 15 \<and> \<not> isCont ratioOf 21"
proof -
  have a: "continuous_on {..<9} attackOf" "continuous_on {9..<15} attackOf"
    "continuous_on {15..21} attackOf"
    by (rule continuous_on_const_piece[where c = 4], simp add: attackOf_low)
       (rule continuous_on_const_piece[where c = 2], simp add: attackOf_mid,
        rule continuous_on_const_piece[where c = 1], simp add: attackOf_normal)
  have r: "continuous_on {..<9} ratioOf" "continuous_on {9..<15} ratioOf"
    "continuous_on {15..21} ratioOf"
    by (rule continuous_on_const_piece[where c = "0.15"], simp add: ratioOf_low)
       (rule continuous_on_const_piece[where c = "2.1"], simp add: ratioOf_mid,
        rule continuous_on_const_piece[where c = 1], simp add: ratioOf_normal)
  show ?thesis
    unfolding releaseOf_eq_attackOf
    using a r attackOf_continuous_high ratioOf_continuous_high
      attackOf_jump_9 attackOf_jump_15 attackOf_jump_21
      ratioOf_jump_9 ratioOf_jump_15 ratioOf_jump_21
    by blast
qed

subsection \<open>C9 and C10: dynamic normalization parameters\<close>

text \<open>
  Claim C9. For every dynamics analysis the derived parameters are
  \<open>targetRMS = 10 ^ ((RMSPeak - 6) / 20)\<close> and \<open>threshold = 10 ^ ((NoiseFloor + 12) / 20)\<close>,
  each clamped to the interval \<open>[0, 1]\<close>; this holds for the refactored
  \<^verbatim>\<open>CalculateDynaudnormParams\<close> and for the monolithic \<^verbatim>\<open>analyzeDynaudnormParams\<close>.
\<close>

theorem CalculateDynaudnormParams_spec:
  "CalculateDynaudnormParams (Some a) =
     Some \<lparr>TargetRMS = clamp01 (10 powr ((RMSPeak a - 6) / 20)),
           Threshold = clamp01 (10 powr ((NoiseFloor a + 12) / 20)),
           RMSPeakDB = RMSPeak a, NoiseFloorDB = NoiseFloor a\<rparr> \<and>
   analyzeDynaudnormParams (Some a) =
     Some \<lparr>TargetRMS = clamp01 (10 powr ((RMSPeak a - 6) / 20)),
           Threshold = clamp01 (10 powr ((NoiseFloor a + 12) / 20)),
           RMSPeakDB = RMSPeak a, NoiseFloorDB = NoiseFloor a\<rparr>"
  by (simp add: CalculateDynaudnormParams_def analyzeDynaudnormParams_def clamp01_def
      Let_def max_def min_def)

text \<open>
  Claim C10. For every non-nil dynamics analysis a parameter record is returned, and its
  TargetRMS and Threshold are strictly positive and at most 1: the conversion
  \<open>10 ^ (x / 20)\<close> is never negative, so the condition of the lower clamp (the value being
  below 0) is false whenever it is tested.
\<close>

theorem dynaudnorm_params_positive:
  "(\<exists>p. CalculateDynaudnormParams (Some a) = Some p \<and>
        0 < TargetRMS p \<and> TargetRMS p \<le> 1 \<and> 0 < Threshold p \<and> Threshold p \<le> 1) \<and>
   (\<exists>p. analyzeDynaudnormParams (Some a) = Some p \<and>
        0 < TargetRMS p \<and> TargetRMS p \<le> 1 \<and> 0 < Threshold p \<and> Threshold p \<le> 1) \<and>
   \<not> 10 powr ((RMSPeak a - 6) / 20) < (0::real) \<and>
   \<not> 10 powr ((NoiseFloor a + 12) / 20) < (0::real)"
  by (simp add: CalculateDynaudnormParams_def analyzeDynaudnormParams_def Let_def not_less)

subsection \<open>Helper facts on the EQ engine\<close>

lemmas eq_defs = buildEqFilter_def collectGains_def calculateTargetCurve_def overallRMS_def
  bandsWithRMS_def eqBandLabels_def flatTarget_def limitedGain_def eqBandParts_def
  getBandpassParams_def presetHighpass_def presetLowpass_def

lemmas clamp_defs = clampExtremeEQ_def clampedLowShelf_def clampedHighShelf_def
  lowShelfLimits_def highShelfLimits_def avgNonExtremes_def shelfLimits_def clampShelf_def










text \<open>The clamp leaves the inner gains alone, so the three rules cannot always be met:
  with inner gains whose last neighbour (-10 dB) lies more than 4 dB below their average
  (-1.625 dB), no pair of shelf gains satisfies them.\<close>

lemma extreme_rules_unsatisfiable_sample:
  "\<not> extremeRulesHold [low, -1.5, 0, 0, 0, -1.5, 0, 0, -10, high]"
  by (auto simp: extremeRulesHold_def avgNonExtremes_def)

text \<open>A loud highest band under Flat (-10 dB against nine bands at -40 dB): the low
  shelf is compared with the high shelf before that one is clamped and ends 6 dB below its
  neighbour, although the shelf gains 0 and -4 would satisfy every rule.\<close>

lemma flat_loud_top_band:
  "clampExtremeEQ (collectGains
     (bandsWithRMS [-40, -40, -40, -40, -40, -40, -40, -40, -40, -10]) ''Flat'') =
     [-6, 0, 0, 0, 0, 0, 0, 0, 0, -4] \<and>
   extremeRulesHold [0, 0, 0, 0, 0, 0, 0, 0, 0, -4]"
  by (simp add: eq_defs clamp_defs extremeRulesHold_def Let_def)

subsection \<open>C1: the extreme-band clamp of the EQ chain\<close>




subsection \<open>C5: the Flat preset on ten equal bands\<close>



subsection \<open>Helper facts on powers of ten\<close>

lemma pow10_less_one_iff: "(10::real) powr x < 1 \<longleftrightarrow> x < 0"
  using powr_less_cancel_iff[of 10 x 0] by simp

lemma pow10_gt_one_iff: "1 < (10::real) powr x \<longleftrightarrow> 0 < x"
  using powr_less_cancel_iff[of 10 0 x] by simp

lemma pow10_le_one_iff: "(10::real) powr x \<le> 1 \<longleftrightarrow> x \<le> 0"
  using powr_le_cancel_iff[of 10 x 0] by simp

lemma pow10_eq_iff: "(10::real) powr x = 10 powr y \<longleftrightarrow> x = y"
  by (simp add: powr_inj)

lemma pow10_ge_tenth: "-1 \<le> x \<Longrightarrow> 1/10 \<le> (10::real) powr x"
  using powr_le_cancel_iff[of 10 "-1" x] by (simp add: powr_minus_divide)

lemma pow10_le_ten: "x \<le> 1 \<Longrightarrow> (10::real) powr x \<le> 10"
  using powr_le_cancel_iff[of 10 x 1] by simp

lemma pow10_ge_one_iff: "1 \<le> (10::real) powr x \<longleftrightarrow> 0 \<le> x"
  using powr_le_cancel_iff[of 10 0 x] by simp

subsection \<open>C6: the per-band limiter\<close>

text \<open>
  Claim C6 says that a band that is not pre-compressed gets its limiter ceiling at the
  band's peak level minus 0.8 dB. For a quiet band the ceiling is held at -24 dB: with a
  peak of -30 dB the emitted limit is \<open>10 ^ (-24 / 20)\<close>, not \<open>10 ^ (-30.8 / 20)\<close>.
\<close>

theorem limiter_ceiling_floor_sample:
  "cs_limiter (buildBandAcompressor (Some (sampleBand ''sub'' (-30))) 10 20 6 (-18)
      \<lparr>AttackMultiplier = 1, ReleaseMultiplier = 1, RatioMultiplier = 1\<rparr>) =
     Some (10 powr (-24 / 20), 25, 150) \<and>
   (10::real) powr (-24 / 20) \<noteq> 10 powr ((-30 - 0.8) / 20)"
  by (simp add: buildBandAcompressor_def sampleBand_def Let_def pow10_gt_one_iff pow10_eq_iff)

text \<open>
  Claim C6, amended. In the multiband compression engine of the monolithic main, for
  every measured band whose ratio multiplier is below 0.3 the emitted per-band limiter has
  the slow 80 ms attack and 2000 ms release; for every other measured band the emitted
  limiter ceiling is that band's peak level minus 0.8 dB, held at -24 dB from below and
  at 0 dB (linear limit 1.0) from above, in the monolithic and in the refactored main.
\<close>

theorem buildBandAcompressor_limiter:
  "(RatioMultiplier mods < 0.3 \<longrightarrow>
      (\<exists>limit. cs_limiter (buildBandAcompressor (Some band) a rl r fb mods) =
                 Some (limit, 80, 2000))) \<and>
   (\<not> RatioMultiplier mods < 0.3 \<longrightarrow>
      cs_limiter (buildBandAcompressor (Some band) a rl r fb mods) =
        Some (min 1 (10 powr (max (-24) (fba_PeakLevel band - 0.8) / 20)),
              min 80 (25 * AttackMultiplier mods), min 8000 (150 * ReleaseMultiplier mods)) \<and>
      cs_limiter (buildBandAcompressor_refactor (Some band) a rl r fb mods) =
        Some (min 1 (10 powr (max (-24) (fba_PeakLevel band - 0.8) / 20)),
              min 80 (25 * AttackMultiplier mods), min 8000 (150 * ReleaseMultiplier mods)))"
  by (simp add: buildBandAcompressor_def buildBandAcompressor_refactor_def DbToLinear_def
      Let_def min_def max_def split_def split: option.splits)

theorem buildBandAcompressor_limiter_witness:
  "RatioMultiplier (getCompressionModifiers 5) < 0.3 \<and>
   (\<exists>limit. cs_limiter (buildBandAcompressor (Some (sampleBand ''mid'' (-6))) 6 14 9 (-10)
               (getCompressionModifiers 5)) = Some (limit, 80, 2000)) \<and>
   \<not> RatioMultiplier (getCompressionModifiers 18) < 0.3 \<and>
   cs_limiter (buildBandAcompressor (Some (sampleBand ''mid'' (-6))) 6 14 9 (-10)
               (getCompressionModifiers 18)) = Some (10 powr (-6.8 / 20), 25, 150)"
proof -
  have pre: "RatioMultiplier (getCompressionModifiers 5) < 0.3"
    by (simp add: getCompressionModifiers_def)
  have normal: "\<not> RatioMultiplier (getCompressionModifiers 18) < 0.3"
    by (simp add: getCompressionModifiers_def)
  have mods: "AttackMultiplier (getCompressionModifiers 18) = 1"
    "ReleaseMultiplier (getCompressionModifiers 18) = 1"
    by (simp_all add: getCompressionModifiers_def)
  have lim: "min 1 ((10::real) powr (max (-24) (fba_PeakLevel (sampleBand ''mid'' (-6)) - 0.8) / 20)) =
             10 powr (-6.8 / 20)"
    by (simp add: sampleBand_def min_def pow10_ge_one_iff)
  from buildBandAcompressor_limiter[of "getCompressionModifiers 5" "sampleBand ''mid'' (-6)" 6 14 9 "-10"]
    buildBandAcompressor_limiter[of "getCompressionModifiers 18" "sampleBand ''mid'' (-6)" 6 14 9 "-10"]
    pre normal mods lim
  show ?thesis by simp
qed

text \<open>For a pre-compressed band the monolithic builder sets the ceiling variable to 0 dB
  only after the linear limit has been computed: the log line reports 0 dB while the
  emitted limit still comes from the peak minus 0.1 dB.\<close>

lemma buildBandAcompressor_precompressed_limit:
  "cs_limiter (buildBandAcompressor (Some (sampleBand ''mid'' (-6))) 6 14 9 (-10)
      (getCompressionModifiers 5)) = Some (10 powr (-6.1 / 20), 80, 2000) \<and>
   (10::real) powr (-6.1 / 20) < 1 \<and>
   cs_loggedLimiterDb (buildBandAcompressor (Some (sampleBand ''mid'' (-6))) 6 14 9 (-10)
      (getCompressionModifiers 5)) = Some 0 \<and>
   cs_limiter (buildBandAcompressor_refactor (Some (sampleBand ''mid'' (-6))) 8 50 2.5 (-14)
      (getCompressionModifiers 5)) = Some (10 powr (-6.1 / 20), 80, 600)"
  by (simp add: buildBandAcompressor_def buildBandAcompressor_refactor_def DbToLinear_def
      sampleBand_def Let_def getCompressionModifiers_def ClampCompressorParams_def
      pow10_gt_one_iff pow10_less_one_iff)

subsection \<open>C7: clamp ranges of the emitted compressor parameters\<close>

text \<open>
  Claim C7 says every emitted compressor parameter lies within the clamp ranges for every
  requested ratio. The spec emitted for a band without a measurement passes the requested
  ratio through: a requested ratio of 50 is emitted as 50.
\<close>

theorem fallback_spec_unclamped_sample:
  "\<not> inClampRanges (buildBandAcompressor None 10 20 50 (-18)
        \<lparr>AttackMultiplier = 1, ReleaseMultiplier = 1, RatioMultiplier = 1\<rparr>)"
  by (simp add: buildBandAcompressor_def inClampRanges_def Let_def)

lemma ClampCompressorParams_ranges:
  "ClampCompressorParams t r a rl m = (t', r', a', rl', m') \<Longrightarrow>
     0.00097563 \<le> t' \<and> t' \<le> 1 \<and> 1 \<le> r' \<and> r' \<le> 20 \<and> 0.01 \<le> a' \<and> a' \<le> 2000 \<and>
     0.01 \<le> rl' \<and> rl' \<le> 9000 \<and> 1 \<le> m' \<and> m' \<le> 64"
  by (auto simp: ClampCompressorParams_def Let_def split: if_splits)

lemma measured_band_ranges:
  "inClampRanges (buildBandAcompressor (Some band) a rl r fb mods)"
  by (simp add: buildBandAcompressor_def inClampRanges_def Let_def split: option.splits)

lemma measured_band_ranges_refactor:
  "inClampRanges (buildBandAcompressor_refactor (Some band) a rl r fb mods)"
  by (simp add: buildBandAcompressor_refactor_def inClampRanges_def Let_def
      ClampCompressorParams_def split: option.splits)

lemma single_band_ranges:
  "preset = ''Light'' \<or> preset = ''Moderate'' \<or> preset = ''Broadcast'' \<Longrightarrow>
   \<exists>c. calculateAdaptiveCompression (Some an) ds preset = Some c \<and> inClampRanges c"
  by (cases ds)
     (auto simp add: calculateAdaptiveCompression_def inClampRanges_def Let_def split_def)

lemma single_band_ranges_refactor:
  "preset = ''Light'' \<or> preset = ''Moderate'' \<or> preset = ''Broadcast'' \<Longrightarrow>
   \<exists>c. calculateAdaptiveCompression_refactor (Some an) ds preset = Some c \<and> inClampRanges c"
  by (cases ds)
     (auto simp add: calculateAdaptiveCompression_refactor_def inClampRanges_def Let_def
        split_def ClampCompressorParams_def)

lemma fallback_ranges:
  assumes "-20 \<le> fb" "fb \<le> 0" "1 \<le> r" "r \<le> 20" "0.01 \<le> a" "a \<le> 2000"
    "0.01 \<le> rl" "rl \<le> 9000"
  shows "inClampRanges (buildBandAcompressor None a rl r fb mods)"
    and "inClampRanges (buildBandAcompressor_refactor None a rl r fb mods)"
proof -
  have t: "0.00097563 \<le> (10::real) powr (fb / 20)" "(10::real) powr (fb / 20) \<le> 1"
    using pow10_ge_tenth[of "fb / 20"] assms(1,2) pow10_gt_one_iff[of "fb / 20"]
    by (simp_all add: not_less[symmetric])
  have v: "1 \<le> (10::real) powr (3 / 20)" "(10::real) powr (3 / 20) \<le> 64"
    using pow10_ge_one_iff[of "3 / 20"] pow10_le_ten[of "3 / 20"] by simp_all
  show "inClampRanges (buildBandAcompressor None a rl r fb mods)"
    using t v assms by (simp add: buildBandAcompressor_def inClampRanges_def Let_def)
  show "inClampRanges (buildBandAcompressor_refactor None a rl r fb mods)"
    using t v assms
    by (simp add: buildBandAcompressor_refactor_def DbToLinear_def inClampRanges_def Let_def)
qed

lemma band_ranges_any:
  assumes "-20 \<le> fb" "fb \<le> 0" "1 \<le> r" "r \<le> 20" "0.01 \<le> a" "a \<le> 2000"
    "0.01 \<le> rl" "rl \<le> 9000"
  shows "inClampRanges (buildBandAcompressor band a rl r fb mods)"
    and "inClampRanges (buildBandAcompressor_refactor band a rl r fb mods)"
  using fallback_ranges[OF assms] measured_band_ranges measured_band_ranges_refactor
  by (cases band; simp)+

lemma preset_bands_in_range:
  assumes "10 \<le> a" "a \<le> 150" "20 \<le> rl" "rl \<le> 300" "5/2 \<le> r" "r \<le> 6"
  shows "inClampRanges (buildBandAcompressor b1 a rl r (-18) mods)"
    and "inClampRanges (buildBandAcompressor b2 a rl r (-15) mods)"
    and "inClampRanges (buildBandAcompressor b3 (a * 0.8) (rl * 0.9) (r * 1.2) (-12) mods)"
    and "inClampRanges (buildBandAcompressor b4 (a * 0.6) (rl * 0.7) (r * 1.5) (-10) mods)"
    and "inClampRanges (buildBandAcompressor b5 (a * 0.5) (rl * 0.6) (r * 2) (-8) mods)"
proof -
  show "inClampRanges (buildBandAcompressor b1 a rl r (-18) mods)"
    by (rule band_ranges_any(1)) (use assms in simp_all)
  show "inClampRanges (buildBandAcompressor b2 a rl r (-15) mods)"
    by (rule band_ranges_any(1)) (use assms in simp_all)
  show "inClampRanges (buildBandAcompressor b3 (a * 0.8) (rl * 0.9) (r * 1.2) (-12) mods)"
    by (rule band_ranges_any(1)) (use assms in simp_all)
  show "inClampRanges (buildBandAcompressor b4 (a * 0.6) (rl * 0.7) (r * 1.5) (-10) mods)"
    by (rule band_ranges_any(1)) (use assms in simp_all)
  show "inClampRanges (buildBandAcompressor b5 (a * 0.5) (rl * 0.6) (r * 2) (-8) mods)"
    by (rule band_ranges_any(1)) (use assms in simp_all)
qed

lemma multiband_ranges:
  assumes "preset = ''Light'' \<or> preset = ''Moderate'' \<or> preset = ''Broadcast''"
    and "bmap \<noteq> []"
  shows "\<exists>cs. buildMultibandCompression bmap ds preset = Some cs \<and>
              list_all inClampRanges cs"
proof -
  from assms(1) consider "preset = ''Light''" | "preset = ''Moderate''" | "preset = ''Broadcast''"
    by blast
  then show ?thesis
  proof cases
    case 1
    then show ?thesis
      using assms(2) preset_bands_in_range[of 150 300 "5/2", simplified]
      by (simp add: buildMultibandCompression_def Let_def)
  next
    case 2
    then show ?thesis
      using assms(2) preset_bands_in_range[of 100 200 4, simplified]
      by (simp add: buildMultibandCompression_def Let_def)
  next
    case 3
    then show ?thesis
      using assms(2) preset_bands_in_range[of 10 20 6, simplified]
      by (simp add: buildMultibandCompression_def Let_def)
  qed
qed

lemma multiband_ranges_refactor:
  assumes "bmap \<noteq> []"
  shows "\<exists>cs. buildMultibandCompression_refactor bmap ds preset = Some cs \<and>
              list_all inClampRanges cs"
proof -
  have "inClampRanges (buildBandAcompressor_refactor b 20 100 4 (-20) mods)"
    "inClampRanges (buildBandAcompressor_refactor b 15 80 3.5 (-18) mods)"
    "inClampRanges (buildBandAcompressor_refactor b 10 60 3 (-16) mods)"
    "inClampRanges (buildBandAcompressor_refactor b 8 50 2.5 (-14) mods)"
    "inClampRanges (buildBandAcompressor_refactor b 5 40 2 (-12) mods)" for b mods
    by (simp_all add: band_ranges_any(2))
  then show ?thesis
    using assms by (simp add: buildMultibandCompression_refactor_def Let_def)
qed

text \<open>
  Claim C7, amended. For every input statistics and every requested (possibly
  out-of-range) ratio, threshold, attack and release, every compressor parameter emitted
  for a measured band, and every parameter emitted by the single-band compressor under
  the presets Light, Moderate and Broadcast, lies within the documented clamp ranges:
  linear threshold in [0.00097563, 1.0], ratio in [1, 20], attack in [0.01, 2000] ms,
  release in [0.01, 9000] ms, makeup in [1, 64]; so does every result of
  \<^verbatim>\<open>ClampCompressorParams\<close>. The fallback spec emitted for a band without a measurement
  passes the requested ratio, attack and release through unclamped; with the constants the
  multiband builders pass for the presets Light, Moderate and Broadcast all five band specs
  are within the ranges, measured or not.
\<close>

theorem compressor_specs_in_clamp_ranges:
  assumes "preset = ''Light'' \<or> preset = ''Moderate'' \<or> preset = ''Broadcast''"
    and "bmap \<noteq> []"
  shows "(case ClampCompressorParams t r a rl m of (t', r', a', rl', m') \<Rightarrow>
            0.00097563 \<le> t' \<and> t' \<le> 1 \<and> 1 \<le> r' \<and> r' \<le> 20 \<and> 0.01 \<le> a' \<and> a' \<le> 2000 \<and>
            0.01 \<le> rl' \<and> rl' \<le> 9000 \<and> 1 \<le> m' \<and> m' \<le> 64) \<and>
         inClampRanges (buildBandAcompressor (Some band) a rl r fb mods) \<and>
         inClampRanges (buildBandAcompressor_refactor (Some band) a rl r fb mods) \<and>
         (\<exists>c. calculateAdaptiveCompression (Some an) ds preset = Some c \<and> inClampRanges c) \<and>
         (\<exists>c. calculateAdaptiveCompression_refactor (Some an) ds preset = Some c \<and>
              inClampRanges c) \<and>
         cs_ratio (buildBandAcompressor None a rl r fb mods) = r \<and>
         cs_attack (buildBandAcompressor None a rl r fb mods) = a \<and>
         cs_release (buildBandAcompressor None a rl r fb mods) = rl \<and>
         cs_ratio (buildBandAcompressor_refactor None a rl r fb mods) = r \<and>
         cs_attack (buildBandAcompressor_refactor None a rl r fb mods) = a \<and>
         cs_release (buildBandAcompressor_refactor None a rl r fb mods) = rl \<and>
         (\<exists>cs. buildMultibandCompression bmap ds preset = Some cs \<and>
               list_all inClampRanges cs) \<and>
         (\<exists>cs. buildMultibandCompression_refactor bmap ds preset = Some cs \<and>
               list_all inClampRanges cs)"
proof -
  have clamp: "case ClampCompressorParams t r a rl m of (t', r', a', rl', m') \<Rightarrow>
            0.00097563 \<le> t' \<and> t' \<le> 1 \<and> 1 \<le> r' \<and> r' \<le> 20 \<and> 0.01 \<le> a' \<and> a' \<le> 2000 \<and>
            0.01 \<le> rl' \<and> rl' \<le> 9000 \<and> 1 \<le> m' \<and> m' \<le> 64"
    using ClampCompressorParams_ranges[of t r a rl m] by (auto split: prod.splits)
  have fallback: "cs_ratio (buildBandAcompressor None a rl r fb mods) = r"
    "cs_attack (buildBandAcompressor None a rl r fb mods) = a"
    "cs_release (buildBandAcompressor None a rl r fb mods) = rl"
    "cs_ratio (buildBandAcompressor_refactor None a rl r fb mods) = r"
    "cs_attack (buildBandAcompressor_refactor None a rl r fb mods) = a"
    "cs_release (buildBandAcompressor_refactor None a rl r fb mods) = rl"
    by (simp_all add: buildBandAcompressor_def buildBandAcompressor_refactor_def Let_def)
  show ?thesis
    using clamp fallback measured_band_ranges[of band a rl r fb mods]
      measured_band_ranges_refactor[of band a rl r fb mods]
      single_band_ranges[OF assms(1), of an ds]
      single_band_ranges_refactor[OF assms(1), of an ds]
      multiband_ranges[OF assms, of ds] multiband_ranges_refactor[OF assms(2), of ds preset]
    by simp
qed

theorem compressor_specs_in_clamp_ranges_witness:
  "(''Broadcast'' = ''Light'' \<or> ''Broadcast'' = ''Moderate'' \<or> ''Broadcast'' = ''Broadcast'') \<and>
   bandAnalysis sampleEngine \<noteq> [] \<and>
   ClampCompressorParams 5 50 0 10000 100 = (1, 20, 0.01, 9000, 64) \<and>
   inClampRanges (buildBandAcompressor (Some (sampleBand ''mid'' (-6))) 0 10000 50 (-10)
      (getCompressionModifiers 60.5)) \<and>
   (\<exists>c. calculateAdaptiveCompression (Some sampleAnalysis) None ''Broadcast'' = Some c \<and>
        inClampRanges c) \<and>
   cs_ratio (buildBandAcompressor None 0 10000 50 (-10) (getCompressionModifiers 60.5)) = 50 \<and>
   (\<exists>cs. buildMultibandCompression (bandAnalysis sampleEngine) None ''Broadcast'' = Some cs \<and>
         list_all inClampRanges cs)"
proof -
  have preset: "''Broadcast'' = ''Light'' \<or> ''Broadcast'' = ''Moderate'' \<or>
                ''Broadcast'' = ''Broadcast''"
    by simp
  have bands: "bandAnalysis sampleEngine \<noteq> []"
    by (simp add: sampleEngine_def)
  have clamp: "ClampCompressorParams 5 50 0 10000 100 = (1, 20, 0.01, 9000, 64)"
    by (simp add: ClampCompressorParams_def Let_def)
  from compressor_specs_in_clamp_ranges[OF preset bands,
      where t = 5 and r = 50 and a = 0 and rl = 10000 and m = 100
        and band = "sampleBand ''mid'' (-6)" and fb = "-10"
        and mods = "getCompressionModifiers 60.5" and an = sampleAnalysis and ds = None]
    preset bands clamp
  show ?thesis by simp
qed

subsection \<open>C8: ReplayGain tags\<close>

text \<open>The tag block of the monolithic main (and of \<^verbatim>\<open>main.go\<close>): when the measured
  integrated loudness, the measured true peak and the target parse as numbers, the gain
  is the target minus the measured loudness and the peak is the true peak as a linear
  amplitude.\<close>

lemma replayGainTags_values:
  assumes "parseFloat (lookup m ''input_i'') = Some i"
    and "lookup m ''input_tp'' \<noteq> []"
    and "parseFloat (lookup m ''input_tp'') = Some tp"
    and "parseFloat target = Some t"
  shows "replayGainTags parseFloat True (Some m) target =
           [(''REPLAYGAIN_TRACK_GAIN'', Number (t - i)),
            (''REPLAYGAIN_TRACK_PEAK'', Number (10 powr (tp / 20))),
            (''REPLAYGAIN_REFERENCE_LOUDNESS'', Text (target @ '' LUFS''))]"
  using assms by (simp add: replayGainTags_def Let_def)

lemmas run_defs = processFile_def processFileBody_def processFile_refactor_def
  processFileBody_refactor_def stageEq_def stageDynamicsScore_def stageDynNorm_def
  stageDynNorm_refactor_def measureStage_def stageDynamics_def stageAttenuate_def
  stageBuildCompression_def stageApplyCompression_def stageDynamics_refactor_def
  stageAttenuate_refactor_def stageSingleBand_refactor_def stageEncode_def
  stageEncode_refactor_def andThen_def analysed_def runEngine_def appendTemp_def
  cleanupTempFiles_def startRun_def stageFailed_def sampleEngine_def sampleConfig_def

text \<open>
  Claim C8: in tag-only mode the written gain is the target loudness minus the measured
  integrated loudness and the written peak is \<open>10 ^ (truePeakDb / 20)\<close>. The tag-only run
  below measures -18.0 LUFS and a true peak of -3.0 dB against a target of -23 LUFS. The
  monolithic main hands the final encode a gain of -5 dB and a peak of \<open>10 ^ (-3 / 20)\<close>;
  the refactored main hands it the measured strings themselves, \<^verbatim>\<open>-18.0 dB\<close> as the gain
  and \<^verbatim>\<open>-3.0\<close> as the peak.
\<close>

theorem replayGain_tags_of_sample_run:
  "finalTags (snd (processFile sampleEngine (sampleConfig\<lparr>writeTags := True\<rparr>)
                     sampleParseFloat ''-23'')) =
     [(''REPLAYGAIN_TRACK_GAIN'', Number (-5)),
      (''REPLAYGAIN_TRACK_PEAK'', Number (10 powr (-3 / 20))),
      (''REPLAYGAIN_REFERENCE_LOUDNESS'', Text ''-23 LUFS'')] \<and>
   finalTags (snd (processFile_refactor sampleEngine (sampleConfig\<lparr>writeTags := True\<rparr>))) =
     [(''REPLAYGAIN_TRACK_GAIN'', Text ''-18.0 dB''),
      (''REPLAYGAIN_TRACK_PEAK'', Text ''-3.0'')]"
  by (simp add: run_defs Let_def replayGainTags_def replayGainTags_refactor_def
      sampleMeasured_def sampleParseFloat_def lookup_def)

subsection \<open>Helper facts on the orchestrator\<close>

lemmas run_ops = analysed_def runEngine_def appendTemp_def tempsCover_def failuresWithin_def

lemma stageEq_inv:
  assumes "tempsCover r" "failuresWithin T r"
  shows "case stageEq env cfg r of
           Inl r' \<Rightarrow> tempsCover r'
         | Inr r' \<Rightarrow> tempsCover r' \<and> failuresWithin T r'"
  using assms by (auto simp: stageEq_def run_ops Let_def)

lemma stageDynamicsScore_inv:
  assumes "tempsCover r" "failuresWithin T r"
  shows "case stageDynamicsScore env cfg r of
           Inl r' \<Rightarrow> tempsCover r'
         | Inr r' \<Rightarrow> tempsCover r' \<and> failuresWithin T r'"
  using assms by (auto simp: stageDynamicsScore_def run_ops Let_def)

lemma measureStage_inv:
  assumes "tempsCover r" "failuresWithin T r"
  shows "case measureStage viaLoudnorm viaEbu cfg r of
           Inl r' \<Rightarrow> tempsCover r'
         | Inr r' \<Rightarrow> tempsCover r' \<and> failuresWithin T r'"
  using assms by (auto simp: measureStage_def andThen_def run_ops Let_def)

lemma stageDynNorm_inv:
  assumes "tempsCover r" "failuresWithin T r"
  shows "case stageDynNorm env cfg r of
           Inl r' \<Rightarrow> tempsCover r'
         | Inr r' \<Rightarrow> tempsCover r' \<and> failuresWithin T r'"
  using assms
  by (auto simp: stageDynNorm_def measureStage_def andThen_def run_ops Let_def
      split: option.splits)

lemma stageDynNorm_refactor_inv:
  assumes "tempsCover r" "failuresWithin T r"
  shows "case stageDynNorm_refactor env cfg r of
           Inl r' \<Rightarrow> tempsCover r'
         | Inr r' \<Rightarrow> tempsCover r' \<and> failuresWithin T r'"
  using assms by (auto simp: stageDynNorm_refactor_def run_ops Let_def split: option.splits)

lemma stageDynamics_inv:
  assumes "tempsCover r" "failuresWithin T r" "PeakCheck \<in> T"
  shows "case stageDynamics env cfg r of
           Inl r' \<Rightarrow> tempsCover r'
         | Inr r' \<Rightarrow> tempsCover r' \<and> failuresWithin T r'"
  using assms
  by (auto simp: stageDynamics_def stageAttenuate_def stageBuildCompression_def
      stageApplyCompression_def andThen_def run_ops Let_def split: option.splits)

lemma stageDynamics_refactor_inv:
  assumes "tempsCover r" "failuresWithin T r" "toleratedByRefactor \<subseteq> T"
  shows "case stageDynamics_refactor env cfg r of
           Inl r' \<Rightarrow> tempsCover r'
         | Inr r' \<Rightarrow> tempsCover r' \<and> failuresWithin T r'"
  using assms
  by (auto simp: stageDynamics_refactor_def stageAttenuate_refactor_def
      stageSingleBand_refactor_def toleratedByRefactor_def run_ops Let_def
      split: option.splits)

lemma andThen_inv:
  assumes "case x of Inl r \<Rightarrow> A r | Inr v \<Rightarrow> B v"
    and "\<And>v. B v \<Longrightarrow> case f v of Inl r \<Rightarrow> A r | Inr w \<Rightarrow> C w"
  shows "case andThen x f of Inl r \<Rightarrow> A r | Inr w \<Rightarrow> C w"
  using assms by (cases x) (auto simp: andThen_def)

lemma startRun_inv: "tempsCover startRun \<and> failuresWithin T startRun"
  by (simp add: startRun_def tempsCover_def failuresWithin_def)

lemma stages_inv:
  "case andThen (andThen (andThen (andThen (stageEq env cfg startRun)
                      (stageDynamicsScore env cfg))
                      (stageDynNorm env cfg))
                      (stageDynamics env cfg))
                      (measureStage (loudnorm env) (ebuR128 env) cfg) of
     Inl r \<Rightarrow> tempsCover r
   | Inr r \<Rightarrow> tempsCover r \<and> failuresWithin {PeakCheck} r"
  by (intro andThen_inv[where B = "\<lambda>r. tempsCover r \<and> failuresWithin {PeakCheck} r"]
        stageEq_inv stageDynamicsScore_inv stageDynNorm_inv stageDynamics_inv
        measureStage_inv)
     (simp_all add: startRun_inv)

lemma stages_refactor_inv:
  "case andThen (andThen (andThen (andThen (stageEq env cfg startRun)
                      (stageDynamicsScore env cfg))
                      (stageDynNorm_refactor env cfg))
                      (stageDynamics_refactor env cfg))
                      (measureStage (loudnorm env) (ebuR128 env) cfg) of
     Inl r \<Rightarrow> tempsCover r
   | Inr r \<Rightarrow> tempsCover r \<and> failuresWithin toleratedByRefactor r"
  by (intro andThen_inv[where B = "\<lambda>r. tempsCover r \<and> failuresWithin toleratedByRefactor r"]
        stageEq_inv stageDynamicsScore_inv stageDynNorm_refactor_inv
        stageDynamics_refactor_inv measureStage_inv)
     (simp_all add: startRun_inv)

lemma processFileBody_outcome:
  "bodyOutcome env {PeakCheck} (processFileBody env cfg parseFloat target)"
  using stages_inv[of env cfg]
  by (auto simp: processFileBody_def bodyOutcome_def stageEncode_def runEngine_def
      tempsCover_def failuresWithin_def stageFailed_def Let_def split: sum.splits)

lemma processFileBody_refactor_outcome:
  "bodyOutcome env toleratedByRefactor (processFileBody_refactor env cfg)"
  using stages_refactor_inv[of env cfg]
  by (auto simp: processFileBody_refactor_def bodyOutcome_def stageEncode_refactor_def
      runEngine_def tempsCover_def failuresWithin_def stageFailed_def Let_def
      split: sum.splits)

lemma stageFailed_within:
  assumes "failuresWithin T r" "stageFailed st r"
  shows "st \<in> T"
  using assms by (auto simp: failuresWithin_def stageFailed_def list_ex_iff)

text \<open>What the deferred cleanup leaves, given the outcome of the body.\<close>

lemma cleanup_after_body:
  assumes "bodyOutcome env T (ok, r0)"
  shows "(stageFailed st (cleanupTempFiles r0) \<and> st \<notin> T \<longrightarrow> \<not> ok) \<and>
         (\<not> ok \<and> OutputFile \<in> written (cleanupTempFiles r0) \<longrightarrow>
            stageFailed FinalEncode (cleanupTempFiles r0) \<and> leavesPartial env FinalEncode) \<and>
         (ok \<longrightarrow> OutputFile \<in> written (cleanupTempFiles r0)) \<and>
         written (cleanupTempFiles r0) \<subseteq> {OutputFile} \<and>
         set (tempFiles (cleanupTempFiles r0)) \<inter> written (cleanupTempFiles r0) = {}"
proof -
  from assms have out: "OutputFile \<notin> set (tempFiles r0)"
    "written r0 \<subseteq> insert OutputFile (set (tempFiles r0))"
    "ok \<Longrightarrow> OutputFile \<in> written r0 \<and> failuresWithin T r0"
    "\<not> ok \<Longrightarrow> OutputFile \<in> written r0 \<Longrightarrow>
       stageFailed FinalEncode r0 \<and> leavesPartial env FinalEncode"
    by (auto simp: bodyOutcome_def split: if_splits)
  have inv: "invoked (cleanupTempFiles r0) = invoked r0"
    "tempFiles (cleanupTempFiles r0) = tempFiles r0"
    "written (cleanupTempFiles r0) = written r0 - set (tempFiles r0)"
    by (simp_all add: cleanupTempFiles_def)
  have failed: "stageFailed s (cleanupTempFiles r0) = stageFailed s r0" for s
    by (simp add: stageFailed_def inv(1))
  have "stageFailed st (cleanupTempFiles r0) \<and> st \<notin> T \<longrightarrow> \<not> ok"
    using out(3) stageFailed_within[of T r0 st] failed by auto
  moreover have "\<not> ok \<and> OutputFile \<in> written (cleanupTempFiles r0) \<longrightarrow>
      stageFailed FinalEncode (cleanupTempFiles r0) \<and> leavesPartial env FinalEncode"
    using out(4) inv(3) failed by auto
  moreover have "ok \<longrightarrow> OutputFile \<in> written (cleanupTempFiles r0)"
    using out(1,3) inv by auto
  moreover have "written (cleanupTempFiles r0) \<subseteq> {OutputFile}"
    using out(2) inv(3) by auto
  moreover have "set (tempFiles (cleanupTempFiles r0)) \<inter> written (cleanupTempFiles r0) = {}"
    using inv by auto
  ultimately show ?thesis by blast
qed

text \<open>The monolithic \<^verbatim>\<open>processFile\<close>: a failed call of any stage but the quick peak
  check (whose error the code discards) makes it return false; after the deferred cleanup
  no listed temp artifact exists and nothing but the output file is left; a successful run
  leaves the output file; a failed run leaves an output file only when the final encode
  itself failed and the engine left its partial file, which the code does not remove.\<close>

lemma processFile_fail_fast:
  "case processFile env cfg parseFloat target of (ok, r) \<Rightarrow>
      (stageFailed st r \<and> st \<noteq> PeakCheck \<longrightarrow> \<not> ok) \<and>
      (\<not> ok \<and> OutputFile \<in> written r \<longrightarrow>
         stageFailed FinalEncode r \<and> leavesPartial env FinalEncode) \<and>
      (ok \<longrightarrow> OutputFile \<in> written r) \<and>
      written r \<subseteq> {OutputFile} \<and>
      set (tempFiles r) \<inter> written r = {}"
proof -
  obtain ok r0 where body: "processFileBody env cfg parseFloat target = (ok, r0)"
    by (cases "processFileBody env cfg parseFloat target")
  have "bodyOutcome env {PeakCheck} (ok, r0)"
    using processFileBody_outcome[of env cfg parseFloat target] body by simp
  from cleanup_after_body[OF this, of st] show ?thesis
    using body by (simp add: processFile_def)
qed

text \<open>The refactored \<^verbatim>\<open>processFile\<close>: the same, except that a failed attenuation
  pre-pass, a failed single-band compression and a failed band or dynamics analysis of
  stage 3 do not make it return false.\<close>

lemma processFile_refactor_fail_fast:
  "case processFile_refactor env cfg of (ok, r) \<Rightarrow>
      (stageFailed st r \<and> st \<notin> toleratedByRefactor \<longrightarrow> \<not> ok) \<and>
      (\<not> ok \<and> OutputFile \<in> written r \<longrightarrow>
         stageFailed FinalEncode r \<and> leavesPartial env FinalEncode) \<and>
      (ok \<longrightarrow> OutputFile \<in> written r) \<and>
      written r \<subseteq> {OutputFile} \<and>
      set (tempFiles r) \<inter> written r = {}"
proof -
  obtain ok r0 where body: "processFileBody_refactor env cfg = (ok, r0)"
    by (cases "processFileBody_refactor env cfg")
  have "bodyOutcome env toleratedByRefactor (ok, r0)"
    using processFileBody_refactor_outcome[of env cfg] body by simp
  from cleanup_after_body[OF this, of st] show ?thesis
    using body by (simp add: processFile_refactor_def)
qed

text \<open>Scenario D of the specification: the EQ rendering fails, both mains return false,
  write nothing and leave no temp artifact.\<close>

lemma sample_bands_not_empty: "bandsWithRMS (replicate 10 (-20)) \<noteq> []"
  by (simp add: bandsWithRMS_def eqBandLabels_def numeral_eq_Suc)

lemma sample_chain_not_empty:
  "buildEqFilter (bandsWithRMS (replicate 10 (-20))) ''Flat'' \<noteq> []"
  by (simp add: buildEqFilter_def presetHighpass_def bandsWithRMS_def eqBandLabels_def
      Let_def numeral_eq_Suc)

lemma failed_eq_rendering:
  "processFile (sampleEngine\<lparr>eqApplyOk := False\<rparr>) (sampleConfig\<lparr>EqTarget := ''Flat''\<rparr>)
       sampleParseFloat ''-23'' =
     (False, \<lparr>workingPath = InputFile, tempFiles = [TempFile ''tnt_eq'' 0], written = {},
              invoked = [(EqAnalysis, InputFile, True), (EqApply, InputFile, False)],
              measuredNow = None, finalTags = []\<rparr>)"
  "processFile_refactor (sampleEngine\<lparr>eqApplyOk := False\<rparr>)
       (sampleConfig\<lparr>EqTarget := ''Flat''\<rparr>) =
     (False, \<lparr>workingPath = InputFile, tempFiles = [TempFile ''tnt_eq'' 0], written = {},
              invoked = [(EqAnalysis, InputFile, True), (EqApply, InputFile, False)],
              measuredNow = None, finalTags = []\<rparr>)"
  using sample_chain_not_empty sample_bands_not_empty by (simp_all add: run_defs Let_def)

text \<open>A failing final encode whose engine leaves a partial file: both mains return false
  and the file at the output path stays, since only listed temp files are removed.\<close>

lemma failed_encode_leaves_partial_output:
  "processFile (sampleEngine\<lparr>encodeOk := False, leavesPartial := (\<lambda>_. True)\<rparr>) sampleConfig
       sampleParseFloat ''-23'' =
     (False, \<lparr>workingPath = InputFile, tempFiles = [], written = {OutputFile},
              invoked = [(FinalEncode, InputFile, False)],
              measuredNow = None, finalTags = []\<rparr>)"
  "processFile_refactor (sampleEngine\<lparr>encodeOk := False, leavesPartial := (\<lambda>_. True)\<rparr>)
       sampleConfig =
     (False, \<lparr>workingPath = InputFile, tempFiles = [], written = {OutputFile},
              invoked = [(FinalEncode, InputFile, False)],
              measuredNow = None, finalTags = []\<rparr>)"
  by (simp_all add: run_defs Let_def replayGainTags_def replayGainTags_refactor_def)

lemma single_band_filter_built:
  "calculateAdaptiveCompression_refactor (Some a) ds ''Light'' \<noteq> None"
  "calculateAdaptiveCompression (Some a) ds ''Light'' \<noteq> None"
  by (simp_all add: calculateAdaptiveCompression_refactor_def
      calculateAdaptiveCompression_def Let_def split_def)

lemma multiband_filter_built:
  "bmap \<noteq> [] \<Longrightarrow> buildMultibandCompression_refactor bmap ds ''Broadcast'' \<noteq> None"
  "bmap \<noteq> [] \<Longrightarrow> buildMultibandCompression bmap ds ''Broadcast'' \<noteq> None"
  by (simp_all add: buildMultibandCompression_refactor_def buildMultibandCompression_def
      Let_def split_def)

subsection \<open>C2: fail-fast stages and temp-artifact cleanup\<close>

text \<open>
  Claim C2 says that a failed compression application or attenuation pre-pass makes
  \<^verbatim>\<open>processFile\<close> return failure and write no output. Two runs in which every engine call
  succeeds but one. With the Light preset and a failing single-band compression the
  refactored \<^verbatim>\<open>processFile\<close> goes on to the final encode of the uncompressed input,
  returns success and leaves the output file; the monolithic one returns failure at the
  failed call and leaves nothing. With the Broadcast preset and a failing attenuation
  pre-pass the refactored \<^verbatim>\<open>processFile\<close> analyses and compresses the unattenuated input,
  returns success and leaves the output file; the monolithic one returns failure and
  leaves nothing. In all four runs no listed temp artifact is left.
\<close>

theorem refactor_continues_after_failed_stage:
  "processFile_refactor (sampleEngine\<lparr>compressApplyOk := False\<rparr>)
     (sampleConfig\<lparr>DynamicsPreset := ''Light''\<rparr>) =
     (True, \<lparr>workingPath = InputFile, tempFiles = [TempFile ''tnt_comp'' 0],
             written = {OutputFile},
             invoked = [(DynamicsScoreCalc, InputFile, True),
                        (DynamicsAnalysisStage, InputFile, True),
                        (SingleBandApply, InputFile, False),
                        (FinalEncode, InputFile, True)],
             measuredNow = None, finalTags = []\<rparr>) \<and>
   processFile (sampleEngine\<lparr>compressApplyOk := False\<rparr>)
     (sampleConfig\<lparr>DynamicsPreset := ''Light''\<rparr>) sampleParseFloat ''-23'' =
     (False, \<lparr>workingPath = InputFile, tempFiles = [TempFile ''tnt_comp'' 0],
              written = {},
              invoked = [(DynamicsScoreCalc, InputFile, True),
                         (DynamicsAnalysisStage, InputFile, True),
                         (SingleBandApply, InputFile, False)],
              measuredNow = None, finalTags = []\<rparr>) \<and>
   processFile_refactor (sampleEngine\<lparr>attenApplyOk := False\<rparr>)
     (sampleConfig\<lparr>DynamicsPreset := ''Broadcast''\<rparr>) =
     (True, \<lparr>workingPath = TempFile ''tnt_mbc'' 0,
             tempFiles = [TempFile ''tnt_atten'' 0, TempFile ''tnt_mbc'' 0],
             written = {OutputFile},
             invoked = [(DynamicsScoreCalc, InputFile, True),
                        (PeakCheck, InputFile, True),
                        (AttenApply, InputFile, False),
                        (BandAnalysis, InputFile, True),
                        (MultibandApply, InputFile, True),
                        (FinalEncode, TempFile ''tnt_mbc'' 0, True)],
             measuredNow = None, finalTags = []\<rparr>) \<and>
   processFile (sampleEngine\<lparr>attenApplyOk := False\<rparr>)
     (sampleConfig\<lparr>DynamicsPreset := ''Broadcast''\<rparr>) sampleParseFloat ''-23'' =
     (False, \<lparr>workingPath = InputFile, tempFiles = [TempFile ''tnt_atten'' 0],
              written = {},
              invoked = [(DynamicsScoreCalc, InputFile, True),
                         (PeakCheck, InputFile, True),
                         (AttenApply, InputFile, False)],
              measuredNow = None, finalTags = []\<rparr>)"
proof -
  have bands: "bandAnalysis sampleEngine \<noteq> []" by (simp add: sampleEngine_def)
  have light: "processFile_refactor (sampleEngine\<lparr>compressApplyOk := False\<rparr>)
     (sampleConfig\<lparr>DynamicsPreset := ''Light''\<rparr>) =
     (True, \<lparr>workingPath = InputFile, tempFiles = [TempFile ''tnt_comp'' 0],
             written = {OutputFile},
             invoked = [(DynamicsScoreCalc, InputFile, True),
                        (DynamicsAnalysisStage, InputFile, True),
                        (SingleBandApply, InputFile, False),
                        (FinalEncode, InputFile, True)],
             measuredNow = None, finalTags = []\<rparr>)"
    using single_band_filter_built(1)
    by (simp add: run_defs Let_def replayGainTags_refactor_def)
  have light_mono: "processFile (sampleEngine\<lparr>compressApplyOk := False\<rparr>)
     (sampleConfig\<lparr>DynamicsPreset := ''Light''\<rparr>) sampleParseFloat ''-23'' =
     (False, \<lparr>workingPath = InputFile, tempFiles = [TempFile ''tnt_comp'' 0],
              written = {},
              invoked = [(DynamicsScoreCalc, InputFile, True),
                         (DynamicsAnalysisStage, InputFile, True),
                         (SingleBandApply, InputFile, False)],
              measuredNow = None, finalTags = []\<rparr>)"
    using single_band_filter_built(2) by (simp add: run_defs Let_def)
  have atten: "processFile_refactor (sampleEngine\<lparr>attenApplyOk := False\<rparr>)
     (sampleConfig\<lparr>DynamicsPreset := ''Broadcast''\<rparr>) =
     (True, \<lparr>workingPath = TempFile ''tnt_mbc'' 0,
             tempFiles = [TempFile ''tnt_atten'' 0, TempFile ''tnt_mbc'' 0],
             written = {OutputFile},
             invoked = [(DynamicsScoreCalc, InputFile, True),
                        (PeakCheck, InputFile, True),
                        (AttenApply, InputFile, False),
                        (BandAnalysis, InputFile, True),
                        (MultibandApply, InputFile, True),
                        (FinalEncode, TempFile ''tnt_mbc'' 0, True)],
             measuredNow = None, finalTags = []\<rparr>)"
    using multiband_filter_built(1)[OF bands]
    by (simp add: run_defs Let_def replayGainTags_refactor_def) auto
  have atten_mono: "processFile (sampleEngine\<lparr>attenApplyOk := False\<rparr>)
     (sampleConfig\<lparr>DynamicsPreset := ''Broadcast''\<rparr>) sampleParseFloat ''-23'' =
     (False, \<lparr>workingPath = InputFile, tempFiles = [TempFile ''tnt_atten'' 0],
              written = {},
              invoked = [(DynamicsScoreCalc, InputFile, True),
                         (PeakCheck, InputFile, True),
                         (AttenApply, InputFile, False)],
              measuredNow = None, finalTags = []\<rparr>)"
    by (simp add: run_defs Let_def)
  from light light_mono atten atten_mono show ?thesis by blast
qed

end
